theory Spec2Isabelle
  imports Main "HOL-Library.AList"
begin

section \<open>The Loops API client (package loops)\<close>

text \<open>
  The repository holds two near-duplicate copies of the package: \<^verbatim>\<open>loops.go\<close> and a second
  file whose name is not known (\<^verbatim>\<open>part_000\<close>). They differ in three places only: the type
  switch of \<^verbatim>\<open>validateFields\<close> (the second copy has no \<^verbatim>\<open>time.Time\<close> case), the HTTP
  method of \<^verbatim>\<open>DeleteContact\<close> (POST in \<^verbatim>\<open>loops.go\<close>, DELETE in the second copy) and
  \<^verbatim>\<open>SendTransactional\<close>, which only \<^verbatim>\<open>loops.go\<close> has. The model takes the copy as a
  parameter wherever the two differ.
\<close>

datatype variant = Loops_go | Part_000

subsection \<open>Values of type any, errors, maps on the heap\<close>

text \<open>
  A Go value of interface type \<^verbatim>\<open>any\<close>, by its dynamic type. \<open>AnyNil\<close> is the nil
  interface; \<open>AnyOther t\<close> is a value of any further dynamic type (float64, int64, a slice,
  a nested map, ...), \<open>t\<close> being the name that the verb \<^verbatim>\<open>%T\<close> prints for it. No
  arithmetic is done on the values, so an \<^verbatim>\<open>int\<close> is kept as a mathematical integer
  and a \<^verbatim>\<open>time.Time\<close> as its instant.
\<close>

datatype any =
    AnyNil
  | AnyString string
  | AnyBool bool
  | AnyInt int
  | AnyTime int
  | AnyOther string

text \<open>What \<^verbatim>\<open>%T\<close> prints for a value.\<close>

fun typeName :: "any \<Rightarrow> string" where
  "typeName AnyNil = ''<nil>''"
| "typeName (AnyString _) = ''string''"
| "typeName (AnyBool _) = ''bool''"
| "typeName (AnyInt _) = ''int''"
| "typeName (AnyTime _) = ''time.Time''"
| "typeName (AnyOther t) = t"

text \<open>
  An \<^verbatim>\<open>error\<close> value: one made by \<^verbatim>\<open>fmt.Errorf\<close> in this package, with its message,
  or one handed over by a library (encoding/json, net/http), which the package passes on
  as it is.
\<close>

datatype error = Errorf string | LibError string

text \<open>
  Go maps are references. The heap is the list of the maps allocated so far, the address
  of a map being its index; a map is the list of its entries, each key once, in the order
  in which a \<^verbatim>\<open>range\<close> loop visits them. Go leaves that order open: the theorems below
  hold for every entry list, and so for every order.
\<close>

type_synonym gomap = "(string \<times> any) list"
type_synonym heap = "gomap list"

datatype mapref = NilMap | MapRef nat

definition entries :: "heap \<Rightarrow> mapref \<Rightarrow> gomap" where
  "entries h r = (case r of NilMap \<Rightarrow> [] | MapRef a \<Rightarrow> h ! a)"

text \<open>\<^verbatim>\<open>map[string]any{}\<close>: a new, empty map at an address not in use.\<close>

definition makemap :: "heap \<Rightarrow> nat \<times> heap" where
  "makemap h = (length h, h @ [[]])"

text \<open>\<^verbatim>\<open>m[k] = v\<close> on the map at address \<open>a\<close>.\<close>

definition mapassign :: "heap \<Rightarrow> nat \<Rightarrow> string \<Rightarrow> any \<Rightarrow> heap" where
  "mapassign h a k v = h[a := AList.update k v (h ! a)]"

text \<open>
  A reference that a caller can hold is nil or the address of an allocated map.
\<close>

definition valid_ref :: "heap \<Rightarrow> mapref \<Rightarrow> bool" where
  "valid_ref h r = (case r of NilMap \<Rightarrow> True | MapRef a \<Rightarrow> a < length h)"

subsection \<open>Client configuration\<close>

text \<open>
  The identity of an \<^verbatim>\<open>*http.Client\<close>: the process-wide \<^verbatim>\<open>http.DefaultClient\<close> or one
  supplied by the caller. The field \<open>client\<close> of the configuration is a pointer, \<open>None\<close>
  being nil.
\<close>

datatype transport = DefaultClient | CustomClient nat

record Client =
  apiKey :: string
  endpoint :: string
  client :: "transport option"

definition DefaultEndpoint :: string where
  "DefaultEndpoint = ''https://app.loops.so/api/v1''"

definition NewClient :: "string \<Rightarrow> Client" where
  "NewClient key = \<lparr> apiKey = key, endpoint = DefaultEndpoint, client = Some DefaultClient \<rparr>"




definition WithHTTPClient :: "Client \<Rightarrow> transport option \<Rightarrow> Client" where
  "WithHTTPClient c t = c\<lparr> client := t \<rparr>"

subsection \<open>validateFields\<close>

text \<open>
  The type switch of \<^verbatim>\<open>validateFields\<close>: \<^verbatim>\<open>case string, bool, int, time.Time\<close> in
  \<^verbatim>\<open>loops.go\<close>, \<^verbatim>\<open>case string, bool, int\<close> in the second copy; every other dynamic
  type, the nil interface included, takes the default branch.
\<close>

fun typeSwitch :: "variant \<Rightarrow> any \<Rightarrow> bool" where
  "typeSwitch _ (AnyString _) = True"
| "typeSwitch _ (AnyBool _) = True"
| "typeSwitch _ (AnyInt _) = True"
| "typeSwitch Loops_go (AnyTime _) = True"
| "typeSwitch Part_000 (AnyTime _) = False"
| "typeSwitch _ AnyNil = False"
| "typeSwitch _ (AnyOther _) = False"

text \<open>
  The loop \<^verbatim>\<open>for k, v := range fields\<close> over the entries still to visit, \<open>ret\<close> being
  the address of the map under construction. It returns the heap, the returned map and
  the returned error (\<open>None\<close> is a nil error).
\<close>

fun rangeFields ::
  "variant \<Rightarrow> gomap \<Rightarrow> nat \<Rightarrow> heap \<Rightarrow> heap \<times> mapref \<times> error option" where
  "rangeFields V [] ret h = (h, MapRef ret, None)"
| "rangeFields V ((k, v) # kvs) ret h =
     (if k = ''email'' then rangeFields V kvs ret h
      else if typeSwitch V v then rangeFields V kvs ret (mapassign h ret k v)
      else (h, NilMap, Some (Errorf (''invalid field type for '' @ k @ '': '' @ typeName v))))"

text \<open>
  The second copy takes a context as well and does not use it. A \<^verbatim>\<open>range\<close> over a nil
  map runs no iteration.
\<close>

definition validateFields :: "variant \<Rightarrow> heap \<Rightarrow> mapref \<Rightarrow> heap \<times> mapref \<times> error option" where
  "validateFields V h flds =
     (case makemap h of (ret, h1) \<Rightarrow> rangeFields V (entries h flds) ret h1)"

subsection \<open>doRequest\<close>

text \<open>
  A \<^verbatim>\<open>context.Context\<close> is opaque to the package: it is handed to the library, which
  alone looks into it.
\<close>

datatype gocontext = Context nat

text \<open>
  An \<^verbatim>\<open>*http.Request\<close> as far as the package touches it (\<open>ReqBody\<close> is its field
  \<^verbatim>\<open>Body\<close>, \<open>None\<close> when \<^verbatim>\<open>reqBody\<close> is nil), and an \<^verbatim>\<open>*http.Response\<close>: its
  \<open>Body\<close> is the bytes that the body stream delivers and \<open>BodyErr\<close> the error that ends
  the stream in place of EOF, if one does.
\<close>

record Request =
  Method :: string
  URL :: string
  Header :: "(string \<times> string) list"
  ReqBody :: "string option"
  Ctx :: gocontext

record Response =
  Status :: string
  StatusCode :: int
  Body :: string
  BodyErr :: "error option"

record SendEventRequest =
  Email :: string
  EventName :: string

record SendTransactionalRequest =
  Email :: string
  TransactionalID :: string
  DataVariables :: mapref

text \<open>
  The values that the package passes as \<^verbatim>\<open>body\<close>: a map, by reference, or one of the
  two request structs. The parameter itself is an \<open>option\<close>, \<open>None\<close> being the nil
  interface.
\<close>

datatype body =
    MapBody mapref
  | EventBody SendEventRequest
  | TransactionalBody SendTransactionalRequest

text \<open>
  The library functions that \<^verbatim>\<open>doRequest\<close> calls, as parameters: \<^verbatim>\<open>json.Marshal\<close>
  (it reads a map through the heap); the checks of \<^verbatim>\<open>http.NewRequestWithContext\<close>
  (method, URL, context); \<^verbatim>\<open>Do\<close> of a client, which performs the round trip; and
  \<^verbatim>\<open>json.NewDecoder(resp.Body).Decode(dst)\<close>, which gives the error, the destination as
  it leaves it and the number of bytes it has taken from the body. \<open>'v\<close> is the struct
  that \<^verbatim>\<open>dst\<close> points to.
\<close>

record 'v lib =
  json_Marshal :: "heap \<Rightarrow> body \<Rightarrow> error + string"
  http_NewRequestError :: "gocontext \<Rightarrow> string \<Rightarrow> string \<Rightarrow> error option"
  client_Do :: "transport \<Rightarrow> Request \<Rightarrow> error + Response"
  json_Decode :: "Response \<Rightarrow> 'v \<Rightarrow> error option \<times> 'v \<times> nat"

text \<open>
  What a call of \<^verbatim>\<open>doRequest\<close> leaves behind: the returned error, the destination, the
  calls of a client's \<^verbatim>\<open>Do\<close> (the client and the request of each; what the client does
  on the network within a call is not the package's), and the response body (none when no response
  was obtained): the bytes of it not read and the number of calls of \<^verbatim>\<open>Close\<close>.
\<close>

record bodystate =
  unread :: string
  closes :: nat

record 'v outcome =
  result :: "error option"
  dst_after :: "'v option"
  sent :: "(transport \<times> Request) list"
  body_after :: "bodystate option"

text \<open>\<^verbatim>\<open>req.Header.Set\<close>, the key being in canonical form already.\<close>

definition Header_Set :: "Request \<Rightarrow> string \<Rightarrow> string \<Rightarrow> Request" where
  "Header_Set req k v = req\<lparr> Header := AList.update k v (Header req) \<rparr>"

text \<open>
  \<^verbatim>\<open>http.NewRequestWithContext\<close>: an empty method stands for GET; on success the request
  has the method, the URL, the body and the context given, and no header.
\<close>

definition NewRequestWithContext ::
  "'v lib \<Rightarrow> gocontext \<Rightarrow> string \<Rightarrow> string \<Rightarrow> string option \<Rightarrow> error + Request" where
  "NewRequestWithContext lib ctx method url reqBody =
     (case http_NewRequestError lib ctx method url of
        Some e \<Rightarrow> Inl e
      | None \<Rightarrow> Inr \<lparr> Method = (if method = [] then ''GET'' else method), URL = url,
                       Header = [], ReqBody = reqBody, Ctx = ctx \<rparr>)"

text \<open>Lines 49 to 67 of \<^verbatim>\<open>loops.go\<close>: the request, or the error returned before any is sent.\<close>

definition buildRequest ::
  "'v lib \<Rightarrow> Client \<Rightarrow> heap \<Rightarrow> gocontext \<Rightarrow> string \<Rightarrow> string \<Rightarrow> body option \<Rightarrow> error + Request" where
  "buildRequest lib c h ctx method path body =
     (case (case body of
              None \<Rightarrow> Inr None
            | Some b \<Rightarrow> (case json_Marshal lib h b of
                           Inl e \<Rightarrow> Inl e
                         | Inr marshalled \<Rightarrow> Inr (Some marshalled))) of
        Inl e \<Rightarrow> Inl e
      | Inr reqBody \<Rightarrow>
          (case NewRequestWithContext lib ctx method (endpoint c @ path) reqBody of
             Inl e \<Rightarrow> Inl e
           | Inr req \<Rightarrow>
               (let req1 = (if reqBody \<noteq> None
                            then Header_Set req ''Content-Type'' ''application/json''
                            else req);
                    req2 = (if apiKey c \<noteq> []
                            then Header_Set req1 ''Authorization'' (''Bearer '' @ apiKey c)
                            else req1)
                in Inr req2)))"

text \<open>Lines 69 to 72: the client of the configuration, the default one when it is nil.\<close>

definition pickClient :: "Client \<Rightarrow> transport" where
  "pickClient c = (case client c of None \<Rightarrow> DefaultClient | Some t \<Rightarrow> t)"

text \<open>
  Lines 78 to 91, once a response is there. \<^verbatim>\<open>io.ReadAll\<close> takes every byte that the
  body delivers and its error is dropped; the deferred \<^verbatim>\<open>Close\<close> runs on every path.
\<close>

definition handleResponse ::
  "'v lib \<Rightarrow> (transport \<times> Request) \<Rightarrow> Response \<Rightarrow> 'v option \<Rightarrow> 'v outcome" where
  "handleResponse lib tr resp dst =
     (if StatusCode resp \<ge> 400 then
        (let buf = Body resp
         in \<lparr> result = Some (Errorf (Status resp @ '': '' @ buf)), dst_after = dst,
              sent = [tr], body_after = Some \<lparr> unread = [], closes = 1 \<rparr> \<rparr>)
      else
        (case dst of
           None \<Rightarrow>
             \<lparr> result = None, dst_after = None,
               sent = [tr], body_after = Some \<lparr> unread = Body resp, closes = 1 \<rparr> \<rparr>
         | Some d \<Rightarrow>
             (case json_Decode lib resp d of
                (e, d', n) \<Rightarrow>
                  \<lparr> result = e, dst_after = Some d',
                    sent = [tr],
                    body_after = Some \<lparr> unread = drop n (Body resp), closes = 1 \<rparr> \<rparr>)))"

definition doRequest ::
  "'v lib \<Rightarrow> Client \<Rightarrow> heap \<Rightarrow> gocontext \<Rightarrow> string \<Rightarrow> string \<Rightarrow> body option \<Rightarrow> 'v option
     \<Rightarrow> 'v outcome" where
  "doRequest lib c h ctx method path body dst =
     (case buildRequest lib c h ctx method path body of
        Inl e \<Rightarrow> \<lparr> result = Some e, dst_after = dst, sent = [], body_after = None \<rparr>
      | Inr req \<Rightarrow>
          (let cl = pickClient c
           in case client_Do lib cl req of
                Inl e \<Rightarrow> \<lparr> result = Some e, dst_after = dst, sent = [(cl, req)],
                           body_after = None \<rparr>
              | Inr resp \<Rightarrow> handleResponse lib (cl, req) resp dst))"

subsection \<open>The operations\<close>

record CreateContactResponse =
  Success :: bool
  ID :: string

record UpsertContactResponse =
  Success :: bool
  ID :: string

record DeleteContactResponse =
  Success :: bool
  Message :: string

record SendEventResponse =
  Success :: bool

record SendTransactionalResponse =
  Success :: bool

text \<open>
  What a call of an operation leaves behind: the heap, the requests handed to a client, the
  returned pointer (\<open>None\<close> is nil) and the returned error. A call returns or panics.
\<close>

record 'v call =
  heap_after :: heap
  requests :: "(transport \<times> Request) list"
  response :: "'v option"
  err :: "error option"

datatype 'a go = Returns 'a | Panics string

text \<open>
  The end of every operation:
  \<^verbatim>\<open>if err := c.doRequest(...); err != nil { return nil, err }; return &resp, nil\<close>.
\<close>

definition returnResponse :: "heap \<Rightarrow> 'v outcome \<Rightarrow> 'v call" where
  "returnResponse h out =
     (case result out of
        Some e \<Rightarrow> \<lparr> heap_after = h, requests = sent out, response = None, err = Some e \<rparr>
      | None \<Rightarrow> \<lparr> heap_after = h, requests = sent out, response = dst_after out, err = None \<rparr>)"

text \<open>\<^verbatim>\<open>req["email"] = email\<close>; an assignment to an entry of a nil map panics.\<close>

definition CreateContact ::
  "variant \<Rightarrow> CreateContactResponse lib \<Rightarrow> Client \<Rightarrow> heap \<Rightarrow> gocontext \<Rightarrow> string \<Rightarrow> mapref
     \<Rightarrow> CreateContactResponse call go" where
  "CreateContact V lib c h ctx email flds =
     (case validateFields V h flds of
        (h1, req, Some e) \<Rightarrow>
          Returns \<lparr> heap_after = h1, requests = [], response = None, err = Some e \<rparr>
      | (h1, req, None) \<Rightarrow>
          (case req of
             NilMap \<Rightarrow> Panics ''assignment to entry in nil map''
           | MapRef a \<Rightarrow>
               (let h2 = mapassign h1 a ''email'' (AnyString email)
                in Returns (returnResponse h2
                     (doRequest lib c h2 ctx ''POST'' ''/contacts/create'' (Some (MapBody req))
                        (Some \<lparr> CreateContactResponse.Success = False, ID = [] \<rparr>))))))"

definition UpsertContact ::
  "variant \<Rightarrow> UpsertContactResponse lib \<Rightarrow> Client \<Rightarrow> heap \<Rightarrow> gocontext \<Rightarrow> string \<Rightarrow> mapref
     \<Rightarrow> UpsertContactResponse call go" where
  "UpsertContact V lib c h ctx email flds =
     (case validateFields V h flds of
        (h1, req, Some e) \<Rightarrow>
          Returns \<lparr> heap_after = h1, requests = [], response = None, err = Some e \<rparr>
      | (h1, req, None) \<Rightarrow>
          (case req of
             NilMap \<Rightarrow> Panics ''assignment to entry in nil map''
           | MapRef a \<Rightarrow>
               (let h2 = mapassign h1 a ''email'' (AnyString email)
                in Returns (returnResponse h2
                     (doRequest lib c h2 ctx ''PUT'' ''/contacts/update'' (Some (MapBody req))
                        (Some \<lparr> UpsertContactResponse.Success = False, ID = [] \<rparr>))))))"

text \<open>The method of \<^verbatim>\<open>DeleteContact\<close>: POST in \<^verbatim>\<open>loops.go\<close>, DELETE in the second copy.\<close>

fun deleteMethod :: "variant \<Rightarrow> string" where
  "deleteMethod Loops_go = ''POST''"
| "deleteMethod Part_000 = ''DELETE''"

text \<open>\<^verbatim>\<open>req := map[string]any{"email": email}\<close> is a new map with the one entry.\<close>

definition DeleteContact ::
  "variant \<Rightarrow> DeleteContactResponse lib \<Rightarrow> Client \<Rightarrow> heap \<Rightarrow> gocontext \<Rightarrow> string
     \<Rightarrow> DeleteContactResponse call go" where
  "DeleteContact V lib c h ctx email =
     (case makemap h of
        (req, h1) \<Rightarrow>
          (let h2 = mapassign h1 req ''email'' (AnyString email)
           in Returns (returnResponse h2
                (doRequest lib c h2 ctx (deleteMethod V) ''/contacts/delete''
                   (Some (MapBody (MapRef req)))
                   (Some \<lparr> DeleteContactResponse.Success = False, Message = [] \<rparr>)))))"

definition SendEvent ::
  "SendEventResponse lib \<Rightarrow> Client \<Rightarrow> heap \<Rightarrow> gocontext \<Rightarrow> SendEventRequest
     \<Rightarrow> SendEventResponse call go" where
  "SendEvent lib c h ctx req =
     Returns (returnResponse h
       (doRequest lib c h ctx ''POST'' ''/events/send'' (Some (EventBody req))
          (Some \<lparr> SendEventResponse.Success = False \<rparr>)))"

text \<open>Only \<^verbatim>\<open>loops.go\<close> has \<^verbatim>\<open>SendTransactional\<close>.\<close>

definition SendTransactional ::
  "SendTransactionalResponse lib \<Rightarrow> Client \<Rightarrow> heap \<Rightarrow> gocontext \<Rightarrow> SendTransactionalRequest
     \<Rightarrow> SendTransactionalResponse call go" where
  "SendTransactional lib c h ctx req =
     Returns (returnResponse h
       (doRequest lib c h ctx ''POST'' ''/transactional'' (Some (TransactionalBody req))
          (Some \<lparr> SendTransactionalResponse.Success = False \<rparr>)))"

subsection \<open>Notions of the specification\<close>

text \<open>
  An entry that makes \<^verbatim>\<open>validateFields\<close> fail (its key is not \<^verbatim>\<open>email\<close> and its value
  takes the default branch of the type switch), the error made for it, and a map without
  its \<^verbatim>\<open>email\<close> entry.
\<close>

definition offending :: "variant \<Rightarrow> string \<times> any \<Rightarrow> bool" where
  "offending V kv = (fst kv \<noteq> ''email'' \<and> \<not> typeSwitch V (snd kv))"

definition fieldError :: "string \<times> any \<Rightarrow> error" where
  "fieldError kv = Errorf (''invalid field type for '' @ fst kv @ '': '' @ typeName (snd kv))"

definition withoutEmail :: "gomap \<Rightarrow> gomap" where
  "withoutEmail m = filter (\<lambda>kv. fst kv \<noteq> ''email'') m"

text \<open>A response body is drained when a response was obtained and no byte of it is unread.\<close>

definition drained :: "'v outcome \<Rightarrow> bool" where
  "drained out = (case body_after out of None \<Rightarrow> False | Some b \<Rightarrow> unread b = [])"

text \<open>
  A transport for examples: marshalling and the construction of the request succeed, every
  client answers with the response \<open>resp\<close>, and the decoder gives \<open>dec\<close>.
\<close>

definition mockLib :: "Response \<Rightarrow> error option \<times> 'v \<times> nat \<Rightarrow> 'v lib" where
  "mockLib resp dec =
     \<lparr> json_Marshal = (\<lambda>h b. Inr (case b of
                                       MapBody r \<Rightarrow> concat (map fst (entries h r))
                                     | EventBody e \<Rightarrow> ''event''
                                     | TransactionalBody t \<Rightarrow> ''transactional'')),
       http_NewRequestError = (\<lambda>ctx m u. None),
       client_Do = (\<lambda>t rq. Inr resp),
       json_Decode = (\<lambda>r d. dec) \<rparr>"

text \<open>
  The request that an operation is to send: the method and the path of the operation on the
  configured endpoint, the JSON of the body with its content type, and the bearer token
  when an API key is configured. \<open>expectedSent\<close> is what reaches the client \<open>cl\<close>: that
  request, once the body has been marshalled and the request accepted by the library, and
  nothing otherwise.
\<close>

definition requestOf :: "Client \<Rightarrow> gocontext \<Rightarrow> string \<Rightarrow> string \<Rightarrow> string \<Rightarrow> Request" where
  "requestOf c ctx method path m =
     \<lparr> Method = method, URL = endpoint c @ path,
       Header = (''Content-Type'', ''application/json'')
                # (if apiKey c = [] then [] else [(''Authorization'', ''Bearer '' @ apiKey c)]),
       ReqBody = Some m, Ctx = ctx \<rparr>"

definition expectedSent ::
  "'v lib \<Rightarrow> transport \<Rightarrow> Client \<Rightarrow> heap \<Rightarrow> gocontext \<Rightarrow> string \<Rightarrow> string \<Rightarrow> body
     \<Rightarrow> (transport \<times> Request) list" where
  "expectedSent lib cl c h ctx method path b =
     (case json_Marshal lib h b of
        Inl e \<Rightarrow> []
      | Inr m \<Rightarrow>
          (case http_NewRequestError lib ctx method (endpoint c @ path) of
             Some e \<Rightarrow> []
           | None \<Rightarrow> [(cl, requestOf c ctx method path m)]))"

section \<open>Properties\<close>



subsection \<open>WithEndpoint\<close>




subsection \<open>validateFields\<close>


lemma rangeFields_error:
  "find (offending V) kvs = Some kv \<Longrightarrow>
   snd (rangeFields V kvs ret h) = (NilMap, Some (fieldError kv))"
  by (induction V kvs ret h rule: rangeFields.induct)
     (auto simp: offending_def fieldError_def split: if_splits)

lemma rangeFields_no_error:
  "find (offending V) kvs = None \<Longrightarrow> snd (rangeFields V kvs ret h) = (MapRef ret, None)"
  by (induction V kvs ret h rule: rangeFields.induct)
     (auto simp: offending_def split: if_splits)


lemma rangeFields_drop_email:
  "rangeFields V (withoutEmail kvs) ret h = rangeFields V kvs ret h"
  by (induction V kvs ret h rule: rangeFields.induct) (auto simp: withoutEmail_def)


lemma mapassign_keys:
  "a < length h \<Longrightarrow> fst ` set (mapassign h a k v ! a) = insert k (fst ` set (h ! a))"
  by (simp add: mapassign_def AList.dom_update)

lemma rangeFields_no_email:
  "ret < length h \<Longrightarrow> ''email'' \<notin> fst ` set (h ! ret) \<Longrightarrow>
   rangeFields V kvs ret h = (h', r, e) \<Longrightarrow> ''email'' \<notin> fst ` set (entries h' r)"
proof (induction V kvs ret h rule: rangeFields.induct)
  case (1 V ret h)
  then show ?case by (auto simp: entries_def)
next
  case (2 V k v kvs ret h)
  show ?case
  proof (cases "k = ''email''")
    case True
    with 2 show ?thesis by simp
  next
    case False
    show ?thesis
    proof (cases "typeSwitch V v")
      case True
      have len: "ret < length (mapassign h ret k v)" using "2.prems"(1) by (simp add: mapassign_def)
      have "''email'' \<notin> fst ` set (mapassign h ret k v ! ret)"
        using mapassign_keys[OF "2.prems"(1), of k v] False "2.prems"(2) by auto
      with "2.IH"(2)[OF False True len] "2.prems"(3) False True show ?thesis by simp
    next
      case nts: False
      with False "2.prems"(3) show ?thesis by (auto simp: entries_def)
    qed
  qed
qed

lemma validateFields_snd:
  "snd (validateFields V h flds) =
     (case find (offending V) (entries h flds) of
        None \<Rightarrow> (MapRef (length h), None)
      | Some kv \<Rightarrow> (NilMap, Some (fieldError kv)))"
  by (simp add: validateFields_def makemap_def rangeFields_error rangeFields_no_error
           split: option.splits)


lemma find_None_iff_all:
  "(find (offending V) kvs = None) = (\<forall>(k, v) \<in> set kvs. k \<noteq> ''email'' \<longrightarrow> typeSwitch V v)"
  by (auto simp: find_None_iff offending_def)

text \<open>
  Claim C1. The map that \<^verbatim>\<open>validateFields\<close> returns never has the key \<^verbatim>\<open>email\<close>, in
  either copy and whatever the input holds under that key; the entry is dropped and is
  never the cause of an error: the returned map and error are those of the call on the
  input without its \<^verbatim>\<open>email\<close> entry (so are the entries of the returned map), and an
  error, when there is one, is for an entry with another key.
\<close>

theorem validateFields_never_email:
  assumes "valid_ref h flds"
  shows "''email'' \<notin> fst ` set (entries (fst (validateFields V h flds))
                                      (fst (snd (validateFields V h flds))))
   \<and> (\<forall>a. flds = MapRef a \<longrightarrow>
         snd (validateFields V (h[a := withoutEmail (h ! a)]) flds) = snd (validateFields V h flds)
         \<and> entries (fst (validateFields V (h[a := withoutEmail (h ! a)]) flds))
                   (fst (snd (validateFields V h flds)))
           = entries (fst (validateFields V h flds)) (fst (snd (validateFields V h flds))))
   \<and> (\<forall>e. snd (snd (validateFields V h flds)) = Some e \<longrightarrow>
         (\<exists>k v. (k, v) \<in> set (entries h flds) \<and> k \<noteq> ''email'' \<and> e = fieldError (k, v)))"
proof -
  obtain h' r e where res: "rangeFields V (entries h flds) (length h) (h @ [[]]) = (h', r, e)"
    by (cases "rangeFields V (entries h flds) (length h) (h @ [[]])") auto
  have "''email'' \<notin> fst ` set (entries h' r)"
    by (rule rangeFields_no_email[OF _ _ res]) simp_all
  then have 1: "''email'' \<notin> fst ` set (entries (fst (validateFields V h flds))
                                      (fst (snd (validateFields V h flds))))"
    by (simp add: validateFields_def makemap_def res)
  have 2: "snd (validateFields V (h[a := withoutEmail (h ! a)]) flds) = snd (validateFields V h flds)
         \<and> entries (fst (validateFields V (h[a := withoutEmail (h ! a)]) flds))
                   (fst (snd (validateFields V h flds)))
           = entries (fst (validateFields V h flds)) (fst (snd (validateFields V h flds)))"
    if f: "flds = MapRef a" for a
  proof -
    from assms f have a: "a < length h" by (simp add: valid_ref_def)
    let ?h0 = "h[a := withoutEmail (h ! a)]"
    have e0: "entries ?h0 flds = withoutEmail (entries h flds)"
      using a f by (simp add: entries_def)
    have rf: "rangeFields V (entries ?h0 flds) (length h) (?h0 @ [[]])
              = rangeFields V (entries h flds) (length h) (?h0 @ [[]])"
      by (simp add: e0 rangeFields_drop_email)
    have frame: "snd (rangeFields V kvs ret g1) = snd (rangeFields V kvs ret g2)
                 \<and> (ret < length g1 \<longrightarrow> length g1 = length g2 \<longrightarrow> g1 ! ret = g2 ! ret \<longrightarrow>
                    fst (rangeFields V kvs ret g1) ! ret = fst (rangeFields V kvs ret g2) ! ret)"
      for kvs ret g1 g2
    proof (induction V kvs ret g1 arbitrary: g2 rule: rangeFields.induct)
      case (1 V ret h)
      then show ?case by simp
    next
      case (2 V k v kvs ret h)
      show ?case
      proof (cases "k = ''email''")
        case True
        with 2 show ?thesis by simp
      next
        case False
        show ?thesis
        proof (cases "typeSwitch V v")
          case True
          show ?thesis
            using "2.IH"(2)[OF False True, of "mapassign g2 ret k v"] False True
            by (auto simp: mapassign_def)
        next
          case nts: False
          with False show ?thesis by simp
        qed
      qed
    qed
    have s: "snd (validateFields V ?h0 flds) = snd (validateFields V h flds)"
      using frame[of "entries h flds" "length h" "?h0 @ [[]]" "h @ [[]]"] rf
      by (simp add: validateFields_def makemap_def)
    have c: "fst (validateFields V ?h0 flds) ! length h = fst (validateFields V h flds) ! length h"
      using frame[of "entries h flds" "length h" "?h0 @ [[]]" "h @ [[]]"] rf
      by (simp add: validateFields_def makemap_def nth_append)
    have "fst (snd (validateFields V h flds)) = NilMap
          \<or> fst (snd (validateFields V h flds)) = MapRef (length h)"
      using validateFields_snd[of V h flds] by (auto split: option.splits simp: prod_eq_iff)
    with c have "entries (fst (validateFields V ?h0 flds)) (fst (snd (validateFields V h flds)))
           = entries (fst (validateFields V h flds)) (fst (snd (validateFields V h flds)))"
      by (auto simp: entries_def)
    with s show ?thesis by simp
  qed
  have 3: "\<exists>k v. (k, v) \<in> set (entries h flds) \<and> k \<noteq> ''email'' \<and> e = fieldError (k, v)"
    if "snd (snd (validateFields V h flds)) = Some e" for e
  proof -
    from that obtain kv where kv: "find (offending V) (entries h flds) = Some kv"
      and e: "e = fieldError kv"
      by (auto simp: validateFields_snd split: option.splits)
    from kv have "kv \<in> set (entries h flds)" "fst kv \<noteq> ''email''"
      by (auto simp: find_Some_iff offending_def)
    with e show ?thesis by (cases kv) auto
  qed
  from 1 2 3 show ?thesis by blast
qed
theorem validateFields_never_email_witness:
  "valid_ref [[(''email'', AnyOther ''float64''), (''name'', AnyString ''Ann'')]] (MapRef 0)
   \<and> validateFields Loops_go [[(''email'', AnyOther ''float64''), (''name'', AnyString ''Ann'')]] (MapRef 0)
       = ([[(''email'', AnyOther ''float64''), (''name'', AnyString ''Ann'')], [(''name'', AnyString ''Ann'')]],
          MapRef 1, None)
   \<and> ''email'' \<notin> fst ` set (entries (fst (validateFields Loops_go
          [[(''email'', AnyOther ''float64''), (''name'', AnyString ''Ann'')]] (MapRef 0))) (MapRef 1))
   \<and> snd (validateFields Loops_go [[(''name'', AnyString ''Ann'')]] (MapRef 0)) = (MapRef 1, None)
   \<and> snd (snd (validateFields Part_000 [[(''email'', AnyInt 1), (''n'', AnyNil)]] (MapRef 0)))
       = Some (fieldError (''n'', AnyNil))"
  using validateFields_never_email[of "[[(''email'', AnyOther ''float64''), (''name'', AnyString ''Ann'')]]"
          "MapRef 0" Loops_go]
  by (simp add: valid_ref_def validateFields_def makemap_def entries_def mapassign_def
        withoutEmail_def fieldError_def)

lemma find_single:
  "filter P xs = [x] \<Longrightarrow> find P xs = Some x"
  by (induction xs) (auto split: if_splits)

text \<open>
  Claim C2, as amended. \<^verbatim>\<open>validateFields\<close> fails exactly when the map has an entry whose
  key is not \<^verbatim>\<open>email\<close> and whose value takes the default branch of the type switch; it
  then returns the nil map and the error that names, by key and dynamic type, the first
  such entry that the loop visits (the only one, when there is one only). When there is no
  such entry it returns no error. A string, a boolean and an int pass in both copies; the
  nil interface and every further type fail in both; a \<^verbatim>\<open>time.Time\<close> passes in
  \<^verbatim>\<open>loops.go\<close> and fails in the second copy, whose type switch has no such case.
\<close>

theorem validateFields_type_check:
  "snd (validateFields V h flds) =
     (case find (offending V) (entries h flds) of
        None \<Rightarrow> (MapRef (length h), None)
      | Some kv \<Rightarrow> (NilMap, Some (fieldError kv)))
   \<and> (\<forall>(k, v) \<in> set (entries h flds). k \<noteq> ''email'' \<and> \<not> typeSwitch V v \<longrightarrow>
         (\<exists>(k', v') \<in> set (entries h flds). k' \<noteq> ''email'' \<and> \<not> typeSwitch V v' \<and>
            snd (validateFields V h flds) =
              (NilMap, Some (Errorf (''invalid field type for '' @ k' @ '': '' @ typeName v')))))
   \<and> (\<forall>k v. filter (offending V) (entries h flds) = [(k, v)] \<longrightarrow>
         snd (validateFields V h flds) =
           (NilMap, Some (Errorf (''invalid field type for '' @ k @ '': '' @ typeName v))))
   \<and> ((\<forall>(k, v) \<in> set (entries h flds). k \<noteq> ''email'' \<longrightarrow> typeSwitch V v) \<longrightarrow>
         snd (validateFields V h flds) = (MapRef (length h), None))
   \<and> typeSwitch V (AnyString s) \<and> typeSwitch V (AnyBool b) \<and> typeSwitch V (AnyInt i)
   \<and> typeSwitch Loops_go (AnyTime t) \<and> \<not> typeSwitch Part_000 (AnyTime t)
   \<and> \<not> typeSwitch V AnyNil \<and> \<not> typeSwitch V (AnyOther n)"
proof -
  let ?kvs = "entries h flds"
  have 1: "snd (validateFields V h flds) =
     (case find (offending V) ?kvs of
        None \<Rightarrow> (MapRef (length h), None)
      | Some kv \<Rightarrow> (NilMap, Some (fieldError kv)))"
    by (rule validateFields_snd)
  have 2: "\<exists>(k', v') \<in> set ?kvs. k' \<noteq> ''email'' \<and> \<not> typeSwitch V v' \<and>
            snd (validateFields V h flds) =
              (NilMap, Some (Errorf (''invalid field type for '' @ k' @ '': '' @ typeName v')))"
    if "(k, v) \<in> set ?kvs" "k \<noteq> ''email''" "\<not> typeSwitch V v" for k v
  proof -
    from that have "find (offending V) ?kvs \<noteq> None"
      by (auto simp: find_None_iff offending_def)
    then obtain kv where kv: "find (offending V) ?kvs = Some kv" by auto
    then have "kv \<in> set ?kvs" "offending V kv" by (auto simp: find_Some_iff)
    moreover have "snd (validateFields V h flds) = (NilMap, Some (fieldError kv))"
      using 1 kv by simp
    ultimately show ?thesis
      by (cases kv) (auto simp: offending_def fieldError_def intro!: bexI[of _ kv])
  qed
  have 3: "snd (validateFields V h flds) =
           (NilMap, Some (Errorf (''invalid field type for '' @ k @ '': '' @ typeName v)))"
    if "filter (offending V) ?kvs = [(k, v)]" for k v
    using 1 find_single[OF that] by (simp add: fieldError_def)
  have 4: "snd (validateFields V h flds) = (MapRef (length h), None)"
    if "\<forall>(k, v) \<in> set ?kvs. k \<noteq> ''email'' \<longrightarrow> typeSwitch V v"
    using 1 that by (simp add: find_None_iff_all[symmetric])
  have 5: "typeSwitch V (AnyString s) \<and> typeSwitch V (AnyBool b) \<and> typeSwitch V (AnyInt i)
   \<and> typeSwitch Loops_go (AnyTime t) \<and> \<not> typeSwitch Part_000 (AnyTime t)
   \<and> \<not> typeSwitch V AnyNil \<and> \<not> typeSwitch V (AnyOther n)"
    by simp
  from 1 2 3 4 5 show ?thesis by blast
qed

theorem validateFields_type_check_witness:
  "filter (offending Loops_go) (entries [[(''age'', AnyInt 3), (''score'', AnyOther ''float64'')]] (MapRef 0))
     = [(''score'', AnyOther ''float64'')]
   \<and> snd (validateFields Loops_go [[(''age'', AnyInt 3), (''score'', AnyOther ''float64'')]] (MapRef 0))
       = (NilMap, Some (Errorf ''invalid field type for score: float64''))
   \<and> snd (validateFields Loops_go [[(''age'', AnyInt 3), (''since'', AnyTime 0)]] (MapRef 0))
       = (MapRef 1, None)"
  using validateFields_type_check[of Loops_go "[[(''age'', AnyInt 3), (''score'', AnyOther ''float64'')]]" "MapRef 0"]
        validateFields_type_check[of Loops_go "[[(''age'', AnyInt 3), (''since'', AnyTime 0)]]" "MapRef 0"]
  by (simp add: entries_def offending_def fieldError_def)

theorem validateFields_timestamp_counterexample:
  "typeSwitch Loops_go (AnyTime 0)
   \<and> validateFields Part_000 [[(''since'', AnyTime 0)]] (MapRef 0)
       = ([[(''since'', AnyTime 0)], []], NilMap,
          Some (Errorf ''invalid field type for since: time.Time''))"
  by (simp add: validateFields_def makemap_def entries_def)




subsection \<open>CreateContact and UpsertContact on a validation error\<close>

text \<open>
  Claim C4. When \<^verbatim>\<open>validateFields\<close> returns an error, the map it returns is nil, and
  \<^verbatim>\<open>CreateContact\<close> and \<^verbatim>\<open>UpsertContact\<close> return a nil response and that same error,
  with no request handed to any client.
\<close>

theorem validation_error_returned:
  assumes "snd (snd (validateFields V h flds)) = Some e"
  shows "fst (snd (validateFields V h flds)) = NilMap
   \<and> CreateContact V libC c h ctx email flds
       = Returns \<lparr> heap_after = fst (validateFields V h flds), requests = [],
                   response = None, err = Some e \<rparr>
   \<and> UpsertContact V libU c h ctx email flds
       = Returns \<lparr> heap_after = fst (validateFields V h flds), requests = [],
                   response = None, err = Some e \<rparr>"
proof -
  obtain h1 r where vf: "validateFields V h flds = (h1, r, Some e)"
    using assms by (cases "validateFields V h flds") auto
  have "r = NilMap"
    using validateFields_snd[of V h flds] vf by (auto split: option.splits)
  with vf show ?thesis by (simp add: CreateContact_def UpsertContact_def)
qed

theorem validation_error_returned_witness:
  "snd (snd (validateFields Loops_go [[(''score'', AnyOther ''float64'')]] (MapRef 0)))
     = Some (Errorf ''invalid field type for score: float64'')
   \<and> CreateContact Loops_go
        (mockLib \<lparr> Status = ''200 OK'', StatusCode = 200, Body = ''{}'', BodyErr = None \<rparr>
           (None, \<lparr> CreateContactResponse.Success = True, ID = ''abc'' \<rparr>, 2))
        (NewClient ''key'') [[(''score'', AnyOther ''float64'')]] (Context 0) ''a@b.com'' (MapRef 0)
       = Returns \<lparr> heap_after = [[(''score'', AnyOther ''float64'')], []], requests = [],
                   response = None, err = Some (Errorf ''invalid field type for score: float64'') \<rparr>
   \<and> UpsertContact Loops_go
        (mockLib \<lparr> Status = ''200 OK'', StatusCode = 200, Body = ''{}'', BodyErr = None \<rparr>
           (None, \<lparr> UpsertContactResponse.Success = True, ID = ''abc'' \<rparr>, 2))
        (NewClient ''key'') [[(''score'', AnyOther ''float64'')]] (Context 0) ''a@b.com'' (MapRef 0)
       = Returns \<lparr> heap_after = [[(''score'', AnyOther ''float64'')], []], requests = [],
                   response = None, err = Some (Errorf ''invalid field type for score: float64'') \<rparr>"
proof -
  have v: "validateFields Loops_go [[(''score'', AnyOther ''float64'')]] (MapRef 0)
           = ([[(''score'', AnyOther ''float64'')], []], NilMap,
              Some (Errorf ''invalid field type for score: float64''))"
    by (simp add: validateFields_def makemap_def entries_def)
  then have hyp: "snd (snd (validateFields Loops_go [[(''score'', AnyOther ''float64'')]] (MapRef 0)))
     = Some (Errorf ''invalid field type for score: float64'')" by simp
  show ?thesis
    using hyp validation_error_returned[OF hyp,
        of "mockLib \<lparr> Status = ''200 OK'', StatusCode = 200, Body = ''{}'', BodyErr = None \<rparr>
              (None, \<lparr> CreateContactResponse.Success = True, ID = ''abc'' \<rparr>, 2)"
           "NewClient ''key''" "Context 0" "''a@b.com''"
           "mockLib \<lparr> Status = ''200 OK'', StatusCode = 200, Body = ''{}'', BodyErr = None \<rparr>
              (None, \<lparr> UpsertContactResponse.Success = True, ID = ''abc'' \<rparr>, 2)"]
    by (simp add: v)
qed

subsection \<open>doRequest\<close>

lemma buildRequest_Method:
  "buildRequest lib c h ctx method path body = Inr req \<Longrightarrow> method \<noteq> [] \<Longrightarrow>
   Method req = method"
  by (auto simp: buildRequest_def NewRequestWithContext_def Header_Set_def Let_def
           split: option.splits sum.splits if_splits)

lemma buildRequest_Header:
  "buildRequest lib c h ctx method path body = Inr req \<Longrightarrow>
   Header req = (if body = None then [] else [(''Content-Type'', ''application/json'')])
              @ (if apiKey c = [] then [] else [(''Authorization'', ''Bearer '' @ apiKey c)])"
  by (auto simp: buildRequest_def NewRequestWithContext_def Header_Set_def Let_def
           split: option.splits sum.splits if_splits)

lemma buildRequest_ReqBody:
  "buildRequest lib c h ctx method path body = Inr req \<Longrightarrow>
   (case body of
      None \<Rightarrow> ReqBody req = None
    | Some b \<Rightarrow> (\<exists>m. json_Marshal lib h b = Inr m \<and> ReqBody req = Some m))"
  by (auto simp: buildRequest_def NewRequestWithContext_def Header_Set_def Let_def
           split: option.splits sum.splits if_splits)

lemma buildRequest_client:
  "buildRequest lib (c\<lparr> client := t \<rparr>) h ctx method path body
   = buildRequest lib c h ctx method path body"
  by (simp add: buildRequest_def Let_def split: option.splits sum.splits)

lemma doRequest_sent:
  "sent (doRequest lib c h ctx method path body dst) =
     (case buildRequest lib c h ctx method path body of
        Inl e \<Rightarrow> []
      | Inr req \<Rightarrow> [(pickClient c, req)])"
  by (simp add: doRequest_def handleResponse_def Let_def
           split: sum.splits option.splits prod.splits)

lemma doRequest_response:
  "buildRequest lib c h ctx method path body = Inr req \<Longrightarrow>
   client_Do lib (pickClient c) req = Inr resp \<Longrightarrow>
   doRequest lib c h ctx method path body dst = handleResponse lib (pickClient c, req) resp dst"
  by (simp add: doRequest_def Let_def)

lemma requests_returnResponse:
  "requests (returnResponse h out) = sent out \<and> heap_after (returnResponse h out) = h"
  by (simp add: returnResponse_def split: option.splits)

text \<open>
  Claim C5. Once a response is obtained, \<^verbatim>\<open>doRequest\<close> goes by its status code. Below
  400 the call succeeds: with no destination it returns no error and decodes nothing; with
  a destination it returns what the decoder returns, an error of the decoder included, and
  the destination is as the decoder leaves it. From 400 on it returns the error made of the
  status text, a colon and a space, and the bytes read from the body, and leaves the
  destination alone; this holds for every response, one whose body ends in a read error
  included.
\<close>

theorem doRequest_status:
  assumes "buildRequest lib c h ctx method path body = Inr req"
    and "client_Do lib (pickClient c) req = Inr resp"
  shows "(StatusCode resp < 400 \<longrightarrow>
            result (doRequest lib c h ctx method path body None) = None
          \<and> dst_after (doRequest lib c h ctx method path body None) = None
          \<and> body_after (doRequest lib c h ctx method path body None)
              = Some \<lparr> unread = Body resp, closes = 1 \<rparr>
          \<and> (\<forall>d. result (doRequest lib c h ctx method path body (Some d))
                    = fst (json_Decode lib resp d)
                \<and> dst_after (doRequest lib c h ctx method path body (Some d))
                    = Some (fst (snd (json_Decode lib resp d)))))
   \<and> (StatusCode resp \<ge> 400 \<longrightarrow>
            result (doRequest lib c h ctx method path body dst)
              = Some (Errorf (Status resp @ '': '' @ Body resp))
          \<and> dst_after (doRequest lib c h ctx method path body dst) = dst)"
  by (auto simp: doRequest_response[OF assms] handleResponse_def split: prod.splits)

theorem doRequest_status_witness:
  "buildRequest (mockLib \<lparr> Status = ''400 Bad Request'', StatusCode = 400, Body = ''bad request'',
                          BodyErr = Some (LibError ''unexpected EOF'') \<rparr> (None, (), 0))
      (NewClient ''key'') [] (Context 0) ''POST'' ''/events/send'' None
     = Inr \<lparr> Method = ''POST'', URL = ''https://app.loops.so/api/v1/events/send'',
             Header = [(''Authorization'', ''Bearer key'')], ReqBody = None, Ctx = Context 0 \<rparr>
   \<and> result (doRequest (mockLib \<lparr> Status = ''400 Bad Request'', StatusCode = 400, Body = ''bad request'',
                          BodyErr = Some (LibError ''unexpected EOF'') \<rparr> (None, (), 0))
      (NewClient ''key'') [] (Context 0) ''POST'' ''/events/send'' None (Some ()))
     = Some (Errorf ''400 Bad Request: bad request'')
   \<and> result (doRequest (mockLib \<lparr> Status = ''200 OK'', StatusCode = 200, Body = ''{}'',
                          BodyErr = None \<rparr> (Some (LibError ''json: cannot unmarshal''), False, 2))
      (NewClient ''key'') [] (Context 0) ''POST'' ''/events/send'' None (Some True))
     = Some (LibError ''json: cannot unmarshal'')
   \<and> result (doRequest (mockLib \<lparr> Status = ''200 OK'', StatusCode = 200, Body = ''{}'',
                          BodyErr = None \<rparr> (Some (LibError ''json: cannot unmarshal''), False, 2))
      (NewClient ''key'') [] (Context 0) ''POST'' ''/events/send'' None None)
     = None"
proof -
  let ?bad = "\<lparr> Status = ''400 Bad Request'', StatusCode = 400, Body = ''bad request'',
                 BodyErr = Some (LibError ''unexpected EOF'') \<rparr>"
  let ?ok = "\<lparr> Status = ''200 OK'', StatusCode = 200, Body = ''{}'', BodyErr = None \<rparr>"
  let ?req = "\<lparr> Method = ''POST'', URL = ''https://app.loops.so/api/v1/events/send'',
             Header = [(''Authorization'', ''Bearer key'')], ReqBody = None, Ctx = Context 0 \<rparr>"
  have b1: "buildRequest (mockLib ?bad (None, (), 0)) (NewClient ''key'') [] (Context 0)
              ''POST'' ''/events/send'' None = Inr ?req"
    by (simp add: buildRequest_def NewRequestWithContext_def mockLib_def NewClient_def
          DefaultEndpoint_def Header_Set_def)
  have d1: "client_Do (mockLib ?bad (None, (), 0)) (pickClient (NewClient ''key'')) ?req = Inr ?bad"
    by (simp add: mockLib_def)
  have b2: "buildRequest (mockLib ?ok (Some (LibError ''json: cannot unmarshal''), False, 2))
              (NewClient ''key'') [] (Context 0) ''POST'' ''/events/send'' None = Inr ?req"
    by (simp add: buildRequest_def NewRequestWithContext_def mockLib_def NewClient_def
          DefaultEndpoint_def Header_Set_def)
  have d2: "client_Do (mockLib ?ok (Some (LibError ''json: cannot unmarshal''), False, 2))
              (pickClient (NewClient ''key'')) ?req = Inr ?ok"
    by (simp add: mockLib_def)
  show ?thesis
    using doRequest_status[OF b1 d1, of "Some ()"] doRequest_status[OF b2 d2, of None] b1
    by (simp add: mockLib_def)
qed

text \<open>
  Claim C6, as amended. A call of \<^verbatim>\<open>doRequest\<close> that obtains a response has called
  \<^verbatim>\<open>Do\<close> of the client exactly once, with the one request it built (the round trips
  that the client makes within that call, when it follows a redirect for instance, are the
  client's), and closes the response body exactly once on every path. How much of the body
  it reads depends on the path: all of it when the status code is 400 or more
  (\<^verbatim>\<open>io.ReadAll\<close>); what the JSON decoder takes when the call succeeds with a
  destination; nothing when it succeeds without one. So the body is drained for a status
  of 400 or more, and otherwise only when the decoder takes all of it or the body is empty.
\<close>

theorem doRequest_body_closed:
  assumes "buildRequest lib c h ctx method path body = Inr req"
    and "client_Do lib (pickClient c) req = Inr resp"
  shows "sent (doRequest lib c h ctx method path body dst) = [(pickClient c, req)]
   \<and> body_after (doRequest lib c h ctx method path body dst)
       = Some \<lparr> unread = (if StatusCode resp \<ge> 400 then []
                            else case dst of
                                   None \<Rightarrow> Body resp
                                 | Some d \<Rightarrow> drop (snd (snd (json_Decode lib resp d))) (Body resp)),
                 closes = 1 \<rparr>
   \<and> drained (doRequest lib c h ctx method path body dst)
       = (StatusCode resp \<ge> 400
          \<or> (case dst of
                None \<Rightarrow> Body resp = []
              | Some d \<Rightarrow> length (Body resp) \<le> snd (snd (json_Decode lib resp d))))"
  by (auto simp: doRequest_response[OF assms] handleResponse_def drained_def
           split: prod.splits option.splits)

theorem doRequest_body_closed_witness:
  "buildRequest (mockLib \<lparr> Status = ''200 OK'', StatusCode = 200, Body = ''{}  '', BodyErr = None \<rparr>
                    (None, True, 2))
      (NewClient ''key'') [] (Context 0) ''POST'' ''/events/send'' None
     = Inr \<lparr> Method = ''POST'', URL = ''https://app.loops.so/api/v1/events/send'',
             Header = [(''Authorization'', ''Bearer key'')], ReqBody = None, Ctx = Context 0 \<rparr>
   \<and> sent (doRequest (mockLib \<lparr> Status = ''200 OK'', StatusCode = 200, Body = ''{}  '', BodyErr = None \<rparr>
                    (None, True, 2))
      (NewClient ''key'') [] (Context 0) ''POST'' ''/events/send'' None (Some False))
     = [(DefaultClient, \<lparr> Method = ''POST'', URL = ''https://app.loops.so/api/v1/events/send'',
             Header = [(''Authorization'', ''Bearer key'')], ReqBody = None, Ctx = Context 0 \<rparr>)]
   \<and> body_after (doRequest (mockLib \<lparr> Status = ''200 OK'', StatusCode = 200, Body = ''{}  '', BodyErr = None \<rparr>
                    (None, True, 2))
      (NewClient ''key'') [] (Context 0) ''POST'' ''/events/send'' None (Some False))
     = Some \<lparr> unread = ''  '', closes = 1 \<rparr>"
proof -
  let ?ok = "\<lparr> Status = ''200 OK'', StatusCode = 200, Body = ''{}  '', BodyErr = None \<rparr>"
  let ?req = "\<lparr> Method = ''POST'', URL = ''https://app.loops.so/api/v1/events/send'',
             Header = [(''Authorization'', ''Bearer key'')], ReqBody = None, Ctx = Context 0 \<rparr>"
  have b: "buildRequest (mockLib ?ok (None, True, 2)) (NewClient ''key'') [] (Context 0)
              ''POST'' ''/events/send'' None = Inr ?req"
    by (simp add: buildRequest_def NewRequestWithContext_def mockLib_def NewClient_def
          DefaultEndpoint_def Header_Set_def)
  have d: "client_Do (mockLib ?ok (None, True, 2)) (pickClient (NewClient ''key'')) ?req = Inr ?ok"
    by (simp add: mockLib_def)
  have p: "pickClient (NewClient ''key'') = DefaultClient"
    by (simp add: pickClient_def NewClient_def)
  show ?thesis
    using doRequest_body_closed[OF b d, of "Some False"] b
    by (simp add: mockLib_def p)
qed

theorem doRequest_drained_counterexample:
  "body_after (doRequest (mockLib \<lparr> Status = ''200 OK'', StatusCode = 200, Body = ''{}'', BodyErr = None \<rparr>
                            (None, (), 2))
      (NewClient ''key'') [] (Context 0) ''POST'' ''/events/send'' None None)
     = Some \<lparr> unread = ''{}'', closes = 1 \<rparr>
   \<and> \<not> drained (doRequest (mockLib \<lparr> Status = ''200 OK'', StatusCode = 200, Body = ''{}'', BodyErr = None \<rparr>
                            (None, (), 2))
      (NewClient ''key'') [] (Context 0) ''POST'' ''/events/send'' None None)"
  by (simp add: doRequest_def buildRequest_def NewRequestWithContext_def mockLib_def
        NewClient_def DefaultEndpoint_def Header_Set_def pickClient_def handleResponse_def
        drained_def)

lemma doRequest_sent_exact:
  "sent (doRequest lib c h ctx method path body dst) =
     (case body of
        None \<Rightarrow>
          (case http_NewRequestError lib ctx method (endpoint c @ path) of
             Some e \<Rightarrow> []
           | None \<Rightarrow>
               [(pickClient c,
                 \<lparr> Method = (if method = [] then ''GET'' else method), URL = endpoint c @ path,
                   Header = (if apiKey c = [] then []
                             else [(''Authorization'', ''Bearer '' @ apiKey c)]),
                   ReqBody = None, Ctx = ctx \<rparr>)])
      | Some b \<Rightarrow>
          (case json_Marshal lib h b of
             Inl e \<Rightarrow> []
           | Inr m \<Rightarrow>
               (case http_NewRequestError lib ctx method (endpoint c @ path) of
                  Some e \<Rightarrow> []
                | None \<Rightarrow>
                    [(pickClient c,
                      \<lparr> Method = (if method = [] then ''GET'' else method),
                        URL = endpoint c @ path,
                        Header = (''Content-Type'', ''application/json'')
                                 # (if apiKey c = [] then []
                                    else [(''Authorization'', ''Bearer '' @ apiKey c)]),
                        ReqBody = Some m, Ctx = ctx \<rparr>)])))"
  by (simp add: doRequest_sent buildRequest_def NewRequestWithContext_def Header_Set_def Let_def
           split: option.splits sum.splits)

lemma doRequest_sent_expected:
  "method \<noteq> [] \<Longrightarrow>
   sent (doRequest lib c h ctx method path (Some b) dst)
   = expectedSent lib (pickClient c) c h ctx method path b"
  by (simp add: doRequest_sent_exact expectedSent_def requestOf_def
           split: option.splits sum.splits)

text \<open>
  Claim C8. \<^verbatim>\<open>doRequest\<close> hands a request to the client exactly when the body, if one is
  given, has been marshalled and the library has accepted the method, the URL and the
  context; it then hands over one request, to the configured client, and that request has
  the header \<^verbatim>\<open>Content-Type: application/json\<close> exactly when a body was given (and
  then the request carries the marshalled body), the header
  \<^verbatim>\<open>Authorization: Bearer <key>\<close> exactly when the API key of the configuration is not
  the empty string, and no other header.
\<close>

theorem doRequest_headers:
  "sent (doRequest lib c h ctx method path body dst) =
     (case body of
        None \<Rightarrow>
          (case http_NewRequestError lib ctx method (endpoint c @ path) of
             Some e \<Rightarrow> []
           | None \<Rightarrow>
               [(pickClient c,
                 \<lparr> Method = (if method = [] then ''GET'' else method), URL = endpoint c @ path,
                   Header = (if apiKey c = [] then []
                             else [(''Authorization'', ''Bearer '' @ apiKey c)]),
                   ReqBody = None, Ctx = ctx \<rparr>)])
      | Some b \<Rightarrow>
          (case json_Marshal lib h b of
             Inl e \<Rightarrow> []
           | Inr m \<Rightarrow>
               (case http_NewRequestError lib ctx method (endpoint c @ path) of
                  Some e \<Rightarrow> []
                | None \<Rightarrow>
                    [(pickClient c,
                      \<lparr> Method = (if method = [] then ''GET'' else method),
                        URL = endpoint c @ path,
                        Header = (''Content-Type'', ''application/json'')
                                 # (if apiKey c = [] then []
                                    else [(''Authorization'', ''Bearer '' @ apiKey c)]),
                        ReqBody = Some m, Ctx = ctx \<rparr>)])))
   \<and> (\<forall>(cl, req) \<in> set (sent (doRequest lib c h ctx method path body dst)).
        Header req = (if body = None then [] else [(''Content-Type'', ''application/json'')])
                   @ (if apiKey c = [] then [] else [(''Authorization'', ''Bearer '' @ apiKey c)])
      \<and> map_of (Header req) ''Content-Type''
          = (if body = None then None else Some ''application/json'')
      \<and> map_of (Header req) ''Authorization''
          = (if apiKey c = [] then None else Some (''Bearer '' @ apiKey c))
      \<and> (ReqBody req = None) = (body = None))"
proof -
  have "Header req = (if body = None then [] else [(''Content-Type'', ''application/json'')])
                 @ (if apiKey c = [] then [] else [(''Authorization'', ''Bearer '' @ apiKey c)])
    \<and> map_of (Header req) ''Content-Type''
        = (if body = None then None else Some ''application/json'')
    \<and> map_of (Header req) ''Authorization''
        = (if apiKey c = [] then None else Some (''Bearer '' @ apiKey c))
    \<and> (ReqBody req = None) = (body = None)"
    if b: "buildRequest lib c h ctx method path body = Inr req" for req
    using buildRequest_Header[OF b] buildRequest_ReqBody[OF b]
    by (auto split: option.splits)
  then have "\<forall>(cl, req) \<in> set (sent (doRequest lib c h ctx method path body dst)).
        Header req = (if body = None then [] else [(''Content-Type'', ''application/json'')])
                   @ (if apiKey c = [] then [] else [(''Authorization'', ''Bearer '' @ apiKey c)])
      \<and> map_of (Header req) ''Content-Type''
          = (if body = None then None else Some ''application/json'')
      \<and> map_of (Header req) ''Authorization''
          = (if apiKey c = [] then None else Some (''Bearer '' @ apiKey c))
      \<and> (ReqBody req = None) = (body = None)"
    by (auto simp: doRequest_sent split: sum.splits)
  with doRequest_sent_exact[of lib c h ctx "method" "path" body dst] show ?thesis
    by (rule conjI)
qed

theorem doRequest_headers_witness:
  "sent (doRequest (mockLib \<lparr> Status = ''200 OK'', StatusCode = 200, Body = ''{}'', BodyErr = None \<rparr>
                      (None, True, 2))
      (WithHTTPClient (NewClient ''key'') (Some (CustomClient 7)))
      [[(''email'', AnyString ''a@b.com'')]] (Context 0) ''POST'' ''/contacts/delete''
      (Some (MapBody (MapRef 0))) (Some False))
     = [(CustomClient 7, \<lparr> Method = ''POST'', URL = ''https://app.loops.so/api/v1/contacts/delete'',
             Header = [(''Content-Type'', ''application/json''), (''Authorization'', ''Bearer key'')],
             ReqBody = Some ''email'', Ctx = Context 0 \<rparr>)]
   \<and> sent (doRequest (mockLib \<lparr> Status = ''200 OK'', StatusCode = 200, Body = ''{}'', BodyErr = None \<rparr>
                      (None, True, 2))
      (NewClient []) [] (Context 0) ''GET'' ''/api-key'' None (Some False))
     = [(DefaultClient, \<lparr> Method = ''GET'', URL = ''https://app.loops.so/api/v1/api-key'',
             Header = [], ReqBody = None, Ctx = Context 0 \<rparr>)]"
  using doRequest_headers[of "mockLib \<lparr> Status = ''200 OK'', StatusCode = 200, Body = ''{}'', BodyErr = None \<rparr>
                      (None, True, 2)" "WithHTTPClient (NewClient ''key'') (Some (CustomClient 7))"
          "[[(''email'', AnyString ''a@b.com'')]]"
          "Context 0" "''POST''" "''/contacts/delete''" "Some (MapBody (MapRef 0))" "Some False"]
        doRequest_headers[of "mockLib \<lparr> Status = ''200 OK'', StatusCode = 200, Body = ''{}'', BodyErr = None \<rparr>
                      (None, True, 2)" "NewClient []" "[]"
          "Context 0" "''GET''" "''/api-key''" None "Some False"]
  by (simp add: mockLib_def NewClient_def WithHTTPClient_def DefaultEndpoint_def pickClient_def
        entries_def)

subsection \<open>The operations\<close>

lemma CreateContact_requests:
  "case find (offending V) (entries h flds) of
     None \<Rightarrow>
       (\<exists>out. CreateContact V lib c h ctx email flds = Returns out
          \<and> heap_after out
              = mapassign (fst (validateFields V h flds)) (length h) ''email'' (AnyString email)
          \<and> requests out
              = expectedSent lib (pickClient c) c (heap_after out) ctx
                  ''POST'' ''/contacts/create'' (MapBody (MapRef (length h))))
   | Some kv \<Rightarrow>
       (\<exists>out. CreateContact V lib c h ctx email flds = Returns out
          \<and> requests out = [] \<and> response out = None \<and> err out = Some (fieldError kv))"
proof (cases "find (offending V) (entries h flds)")
  case None
  then show ?thesis
    using validateFields_snd[of V h flds]
    by (cases "validateFields V h flds")
       (simp add: CreateContact_def Let_def requests_returnResponse doRequest_sent_expected)
next
  case (Some kv)
  then show ?thesis
    using validateFields_snd[of V h flds]
    by (cases "validateFields V h flds") (simp add: CreateContact_def)
qed

lemma UpsertContact_requests:
  "case find (offending V) (entries h flds) of
     None \<Rightarrow>
       (\<exists>out. UpsertContact V lib c h ctx email flds = Returns out
          \<and> heap_after out
              = mapassign (fst (validateFields V h flds)) (length h) ''email'' (AnyString email)
          \<and> requests out
              = expectedSent lib (pickClient c) c (heap_after out) ctx
                  ''PUT'' ''/contacts/update'' (MapBody (MapRef (length h))))
   | Some kv \<Rightarrow>
       (\<exists>out. UpsertContact V lib c h ctx email flds = Returns out
          \<and> requests out = [] \<and> response out = None \<and> err out = Some (fieldError kv))"
proof (cases "find (offending V) (entries h flds)")
  case None
  then show ?thesis
    using validateFields_snd[of V h flds]
    by (cases "validateFields V h flds")
       (simp add: UpsertContact_def Let_def requests_returnResponse doRequest_sent_expected)
next
  case (Some kv)
  then show ?thesis
    using validateFields_snd[of V h flds]
    by (cases "validateFields V h flds") (simp add: UpsertContact_def)
qed

lemma deleteMethod_nonempty: "deleteMethod V \<noteq> []"
  by (cases V) simp_all

lemma DeleteContact_requests:
  "\<exists>out. DeleteContact V lib c h ctx email = Returns out
     \<and> heap_after out = h @ [[(''email'', AnyString email)]]
     \<and> requests out
         = expectedSent lib (pickClient c) c (heap_after out) ctx
             (deleteMethod V) ''/contacts/delete'' (MapBody (MapRef (length h)))"
  by (simp add: DeleteContact_def makemap_def mapassign_def Let_def requests_returnResponse
        doRequest_sent_expected deleteMethod_nonempty)

lemma SendEvent_requests:
  "\<exists>out. SendEvent lib c h ctx ev = Returns out
     \<and> heap_after out = h
     \<and> requests out
         = expectedSent lib (pickClient c) c h ctx ''POST'' ''/events/send'' (EventBody ev)"
  by (simp add: SendEvent_def requests_returnResponse doRequest_sent_expected)

lemma SendTransactional_requests:
  "\<exists>out. SendTransactional lib c h ctx tr = Returns out
     \<and> heap_after out = h
     \<and> requests out
         = expectedSent lib (pickClient c) c h ctx ''POST'' ''/transactional''
             (TransactionalBody tr)"
  by (simp add: SendTransactional_def requests_returnResponse doRequest_sent_expected)

lemma doRequest_nil_client_eq:
  "client c = None \<Longrightarrow>
   doRequest lib c h ctx method path body dst
   = doRequest lib (c\<lparr> client := Some DefaultClient \<rparr>) h ctx method path body dst"
  by (simp add: doRequest_def buildRequest_client pickClient_def Let_def split: sum.splits)

text \<open>
  Claim C10. When the field \<^verbatim>\<open>client\<close> of the configuration is nil, as it is after
  \<^verbatim>\<open>WithHTTPClient(nil)\<close>, \<^verbatim>\<open>doRequest\<close> uses \<^verbatim>\<open>http.DefaultClient\<close>: the call does
  what it does with the default client set, and a request that is built is handed to the
  default client. So does every operation: it returns, it does not panic, and it hands its
  request to the default client (\<^verbatim>\<open>CreateContact\<close> and \<^verbatim>\<open>UpsertContact\<close> when the
  fields are valid), with the result that it has with the default client set.
\<close>

theorem doRequest_nil_client:
  assumes "client c = None"
  shows "client (WithHTTPClient c0 None) = None
   \<and> pickClient c = DefaultClient
   \<and> doRequest lib c h ctx method path body dst
       = doRequest lib (c\<lparr> client := Some DefaultClient \<rparr>) h ctx method path body dst
   \<and> (\<forall>req. buildRequest lib c h ctx method path body = Inr req \<longrightarrow>
         sent (doRequest lib c h ctx method path body dst) = [(DefaultClient, req)])
   \<and> CreateContact V libC c h ctx email flds
       = CreateContact V libC (c\<lparr> client := Some DefaultClient \<rparr>) h ctx email flds
   \<and> UpsertContact V libU c h ctx email flds
       = UpsertContact V libU (c\<lparr> client := Some DefaultClient \<rparr>) h ctx email flds
   \<and> DeleteContact V libD c h ctx email
       = DeleteContact V libD (c\<lparr> client := Some DefaultClient \<rparr>) h ctx email
   \<and> SendEvent libE c h ctx ev
       = SendEvent libE (c\<lparr> client := Some DefaultClient \<rparr>) h ctx ev
   \<and> SendTransactional libT c h ctx tr
       = SendTransactional libT (c\<lparr> client := Some DefaultClient \<rparr>) h ctx tr
   \<and> (case find (offending V) (entries h flds) of
         None \<Rightarrow>
           (\<exists>out. CreateContact V libC c h ctx email flds = Returns out
              \<and> requests out
                  = expectedSent libC DefaultClient c (heap_after out) ctx
                      ''POST'' ''/contacts/create'' (MapBody (MapRef (length h))))
       | Some kv \<Rightarrow>
           (\<exists>out. CreateContact V libC c h ctx email flds = Returns out
              \<and> requests out = [] \<and> err out = Some (fieldError kv)))
   \<and> (case find (offending V) (entries h flds) of
         None \<Rightarrow>
           (\<exists>out. UpsertContact V libU c h ctx email flds = Returns out
              \<and> requests out
                  = expectedSent libU DefaultClient c (heap_after out) ctx
                      ''PUT'' ''/contacts/update'' (MapBody (MapRef (length h))))
       | Some kv \<Rightarrow>
           (\<exists>out. UpsertContact V libU c h ctx email flds = Returns out
              \<and> requests out = [] \<and> err out = Some (fieldError kv)))
   \<and> (\<exists>out. DeleteContact V libD c h ctx email = Returns out
         \<and> requests out
             = expectedSent libD DefaultClient c (heap_after out) ctx
                 (deleteMethod V) ''/contacts/delete'' (MapBody (MapRef (length h))))
   \<and> (\<exists>out. SendEvent libE c h ctx ev = Returns out
         \<and> requests out
             = expectedSent libE DefaultClient c h ctx ''POST'' ''/events/send'' (EventBody ev))
   \<and> (\<exists>out. SendTransactional libT c h ctx tr = Returns out
         \<and> requests out
             = expectedSent libT DefaultClient c h ctx ''POST'' ''/transactional''
                 (TransactionalBody tr))"
proof -
  note eq = doRequest_nil_client_eq[OF assms]
  have 1: "client (WithHTTPClient c0 None) = None" by (simp add: WithHTTPClient_def)
  have 2: "pickClient c = DefaultClient" using assms by (simp add: pickClient_def)
  have 4: "\<forall>req. buildRequest lib c h ctx method path body = Inr req \<longrightarrow>
         sent (doRequest lib c h ctx method path body dst) = [(DefaultClient, req)]"
    by (simp add: doRequest_sent 2)
  have 5: "CreateContact V libC c h ctx email flds
       = CreateContact V libC (c\<lparr> client := Some DefaultClient \<rparr>) h ctx email flds"
    by (simp add: CreateContact_def eq Let_def split: prod.splits option.splits mapref.splits)
  have 6: "UpsertContact V libU c h ctx email flds
       = UpsertContact V libU (c\<lparr> client := Some DefaultClient \<rparr>) h ctx email flds"
    by (simp add: UpsertContact_def eq Let_def split: prod.splits option.splits mapref.splits)
  have 7: "DeleteContact V libD c h ctx email
       = DeleteContact V libD (c\<lparr> client := Some DefaultClient \<rparr>) h ctx email"
    by (simp add: DeleteContact_def eq Let_def split: prod.splits option.splits mapref.splits)
  have 8: "SendEvent libE c h ctx ev
       = SendEvent libE (c\<lparr> client := Some DefaultClient \<rparr>) h ctx ev"
    by (simp add: SendEvent_def eq)
  have 9: "SendTransactional libT c h ctx tr
       = SendTransactional libT (c\<lparr> client := Some DefaultClient \<rparr>) h ctx tr"
    by (simp add: SendTransactional_def eq)
  have 10: "case find (offending V) (entries h flds) of
         None \<Rightarrow>
           (\<exists>out. CreateContact V libC c h ctx email flds = Returns out
              \<and> requests out
                  = expectedSent libC DefaultClient c (heap_after out) ctx
                      ''POST'' ''/contacts/create'' (MapBody (MapRef (length h))))
       | Some kv \<Rightarrow>
           (\<exists>out. CreateContact V libC c h ctx email flds = Returns out
              \<and> requests out = [] \<and> err out = Some (fieldError kv))"
    using CreateContact_requests[of V libC c h ctx email flds]
    by (auto simp: 2 split: option.splits)
  have 11: "case find (offending V) (entries h flds) of
         None \<Rightarrow>
           (\<exists>out. UpsertContact V libU c h ctx email flds = Returns out
              \<and> requests out
                  = expectedSent libU DefaultClient c (heap_after out) ctx
                      ''PUT'' ''/contacts/update'' (MapBody (MapRef (length h))))
       | Some kv \<Rightarrow>
           (\<exists>out. UpsertContact V libU c h ctx email flds = Returns out
              \<and> requests out = [] \<and> err out = Some (fieldError kv))"
    using UpsertContact_requests[of V libU c h ctx email flds]
    by (auto simp: 2 split: option.splits)
  have 12: "\<exists>out. DeleteContact V libD c h ctx email = Returns out
         \<and> requests out
             = expectedSent libD DefaultClient c (heap_after out) ctx
                 (deleteMethod V) ''/contacts/delete'' (MapBody (MapRef (length h)))"
    using DeleteContact_requests[of V libD c h ctx email] by (auto simp: 2)
  have 13: "\<exists>out. SendEvent libE c h ctx ev = Returns out
         \<and> requests out
             = expectedSent libE DefaultClient c h ctx ''POST'' ''/events/send'' (EventBody ev)"
    using SendEvent_requests[of libE c h ctx ev] by (auto simp: 2)
  have 14: "\<exists>out. SendTransactional libT c h ctx tr = Returns out
         \<and> requests out
             = expectedSent libT DefaultClient c h ctx ''POST'' ''/transactional''
                 (TransactionalBody tr)"
    using SendTransactional_requests[of libT c h ctx tr] by (auto simp: 2)
  show ?thesis
    using 1 2 eq 4 5 6 7 8 9 10 11 12 13 14 by (intro conjI)
qed

theorem doRequest_nil_client_witness:
  "client (WithHTTPClient (NewClient ''key'') None) = None
   \<and> CreateContact Loops_go
      (mockLib \<lparr> Status = ''200 OK'', StatusCode = 200, Body = ''{}'', BodyErr = None \<rparr> (None, \<lparr> CreateContactResponse.Success = True, ID = ''abc'' \<rparr>, 2))
      (WithHTTPClient (NewClient ''key'') None) [[(''name'', AnyString ''Ann'')]] (Context 0) ''a@b.com'' (MapRef 0)
     = Returns \<lparr> heap_after = [[(''name'', AnyString ''Ann'')], [(''name'', AnyString ''Ann''), (''email'', AnyString ''a@b.com'')]],
         requests = [(DefaultClient,
            \<lparr> Method = ''POST'', URL = ''https://app.loops.so/api/v1/contacts/create'',
              Header = [(''Content-Type'', ''application/json''), (''Authorization'', ''Bearer key'')],
              ReqBody = Some ''nameemail'', Ctx = Context 0 \<rparr>)],
         response = Some \<lparr> CreateContactResponse.Success = True, ID = ''abc'' \<rparr>, err = None \<rparr>
   \<and> UpsertContact Loops_go
      (mockLib \<lparr> Status = ''200 OK'', StatusCode = 200, Body = ''{}'', BodyErr = None \<rparr> (None, \<lparr> UpsertContactResponse.Success = True, ID = ''abc'' \<rparr>, 2))
      (WithHTTPClient (NewClient ''key'') None) [[(''name'', AnyString ''Ann'')]] (Context 0) ''a@b.com'' (MapRef 0)
     = Returns \<lparr> heap_after = [[(''name'', AnyString ''Ann'')], [(''name'', AnyString ''Ann''), (''email'', AnyString ''a@b.com'')]],
         requests = [(DefaultClient,
            \<lparr> Method = ''PUT'', URL = ''https://app.loops.so/api/v1/contacts/update'',
              Header = [(''Content-Type'', ''application/json''), (''Authorization'', ''Bearer key'')],
              ReqBody = Some ''nameemail'', Ctx = Context 0 \<rparr>)],
         response = Some \<lparr> UpsertContactResponse.Success = True, ID = ''abc'' \<rparr>, err = None \<rparr>
   \<and> DeleteContact Loops_go
      (mockLib \<lparr> Status = ''200 OK'', StatusCode = 200, Body = ''{}'', BodyErr = None \<rparr> (None, \<lparr> DeleteContactResponse.Success = True, Message = ''done'' \<rparr>, 2))
      (WithHTTPClient (NewClient ''key'') None) [[(''name'', AnyString ''Ann'')]] (Context 0) ''a@b.com''
     = Returns \<lparr> heap_after = [[(''name'', AnyString ''Ann'')], [(''email'', AnyString ''a@b.com'')]],
         requests = [(DefaultClient,
            \<lparr> Method = ''POST'', URL = ''https://app.loops.so/api/v1/contacts/delete'',
              Header = [(''Content-Type'', ''application/json''), (''Authorization'', ''Bearer key'')],
              ReqBody = Some ''email'', Ctx = Context 0 \<rparr>)],
         response = Some \<lparr> DeleteContactResponse.Success = True, Message = ''done'' \<rparr>, err = None \<rparr>
   \<and> DeleteContact Part_000
      (mockLib \<lparr> Status = ''200 OK'', StatusCode = 200, Body = ''{}'', BodyErr = None \<rparr> (None, \<lparr> DeleteContactResponse.Success = True, Message = ''done'' \<rparr>, 2))
      (WithHTTPClient (NewClient ''key'') None) [[(''name'', AnyString ''Ann'')]] (Context 0) ''a@b.com''
     = Returns \<lparr> heap_after = [[(''name'', AnyString ''Ann'')], [(''email'', AnyString ''a@b.com'')]],
         requests = [(DefaultClient,
            \<lparr> Method = ''DELETE'', URL = ''https://app.loops.so/api/v1/contacts/delete'',
              Header = [(''Content-Type'', ''application/json''), (''Authorization'', ''Bearer key'')],
              ReqBody = Some ''email'', Ctx = Context 0 \<rparr>)],
         response = Some \<lparr> DeleteContactResponse.Success = True, Message = ''done'' \<rparr>, err = None \<rparr>
   \<and> SendEvent
      (mockLib \<lparr> Status = ''200 OK'', StatusCode = 200, Body = ''{}'', BodyErr = None \<rparr> (None, \<lparr> SendEventResponse.Success = True \<rparr>, 2))
      (WithHTTPClient (NewClient ''key'') None) [[(''name'', AnyString ''Ann'')]] (Context 0)
      \<lparr> SendEventRequest.Email = ''a@b.com'', EventName = ''signup'' \<rparr>
     = Returns \<lparr> heap_after = [[(''name'', AnyString ''Ann'')]],
         requests = [(DefaultClient,
            \<lparr> Method = ''POST'', URL = ''https://app.loops.so/api/v1/events/send'',
              Header = [(''Content-Type'', ''application/json''), (''Authorization'', ''Bearer key'')],
              ReqBody = Some ''event'', Ctx = Context 0 \<rparr>)],
         response = Some \<lparr> SendEventResponse.Success = True \<rparr>, err = None \<rparr>
   \<and> SendTransactional
      (mockLib \<lparr> Status = ''200 OK'', StatusCode = 200, Body = ''{}'', BodyErr = None \<rparr> (None, \<lparr> SendTransactionalResponse.Success = True \<rparr>, 2))
      (WithHTTPClient (NewClient ''key'') None) [[(''name'', AnyString ''Ann'')]] (Context 0)
      \<lparr> SendTransactionalRequest.Email = ''a@b.com'', TransactionalID = ''t1'',
        DataVariables = NilMap \<rparr>
     = Returns \<lparr> heap_after = [[(''name'', AnyString ''Ann'')]],
         requests = [(DefaultClient,
            \<lparr> Method = ''POST'', URL = ''https://app.loops.so/api/v1/transactional'',
              Header = [(''Content-Type'', ''application/json''), (''Authorization'', ''Bearer key'')],
              ReqBody = Some ''transactional'', Ctx = Context 0 \<rparr>)],
         response = Some \<lparr> SendTransactionalResponse.Success = True \<rparr>, err = None \<rparr>"
proof -
  note defs = returnResponse_def doRequest_def buildRequest_def NewRequestWithContext_def
    mockLib_def NewClient_def WithHTTPClient_def DefaultEndpoint_def Header_Set_def pickClient_def
    handleResponse_def makemap_def mapassign_def entries_def validateFields_def
  have n: "client (WithHTTPClient (NewClient ''key'') None) = None"
    by (simp add: WithHTTPClient_def)
  have c1: "CreateContact Loops_go
      (mockLib \<lparr> Status = ''200 OK'', StatusCode = 200, Body = ''{}'', BodyErr = None \<rparr> (None, \<lparr> CreateContactResponse.Success = True, ID = ''abc'' \<rparr>, 2))
      (WithHTTPClient (NewClient ''key'') None) [[(''name'', AnyString ''Ann'')]] (Context 0) ''a@b.com'' (MapRef 0)
     = Returns \<lparr> heap_after = [[(''name'', AnyString ''Ann'')], [(''name'', AnyString ''Ann''), (''email'', AnyString ''a@b.com'')]],
         requests = [(DefaultClient,
            \<lparr> Method = ''POST'', URL = ''https://app.loops.so/api/v1/contacts/create'',
              Header = [(''Content-Type'', ''application/json''), (''Authorization'', ''Bearer key'')],
              ReqBody = Some ''nameemail'', Ctx = Context 0 \<rparr>)],
         response = Some \<lparr> CreateContactResponse.Success = True, ID = ''abc'' \<rparr>, err = None \<rparr>"
    by (simp add: CreateContact_def defs)
  have u1: "UpsertContact Loops_go
      (mockLib \<lparr> Status = ''200 OK'', StatusCode = 200, Body = ''{}'', BodyErr = None \<rparr> (None, \<lparr> UpsertContactResponse.Success = True, ID = ''abc'' \<rparr>, 2))
      (WithHTTPClient (NewClient ''key'') None) [[(''name'', AnyString ''Ann'')]] (Context 0) ''a@b.com'' (MapRef 0)
     = Returns \<lparr> heap_after = [[(''name'', AnyString ''Ann'')], [(''name'', AnyString ''Ann''), (''email'', AnyString ''a@b.com'')]],
         requests = [(DefaultClient,
            \<lparr> Method = ''PUT'', URL = ''https://app.loops.so/api/v1/contacts/update'',
              Header = [(''Content-Type'', ''application/json''), (''Authorization'', ''Bearer key'')],
              ReqBody = Some ''nameemail'', Ctx = Context 0 \<rparr>)],
         response = Some \<lparr> UpsertContactResponse.Success = True, ID = ''abc'' \<rparr>, err = None \<rparr>"
    by (simp add: UpsertContact_def defs)
  have d1: "DeleteContact Loops_go
      (mockLib \<lparr> Status = ''200 OK'', StatusCode = 200, Body = ''{}'', BodyErr = None \<rparr> (None, \<lparr> DeleteContactResponse.Success = True, Message = ''done'' \<rparr>, 2))
      (WithHTTPClient (NewClient ''key'') None) [[(''name'', AnyString ''Ann'')]] (Context 0) ''a@b.com''
     = Returns \<lparr> heap_after = [[(''name'', AnyString ''Ann'')], [(''email'', AnyString ''a@b.com'')]],
         requests = [(DefaultClient,
            \<lparr> Method = ''POST'', URL = ''https://app.loops.so/api/v1/contacts/delete'',
              Header = [(''Content-Type'', ''application/json''), (''Authorization'', ''Bearer key'')],
              ReqBody = Some ''email'', Ctx = Context 0 \<rparr>)],
         response = Some \<lparr> DeleteContactResponse.Success = True, Message = ''done'' \<rparr>, err = None \<rparr>"
    by (simp add: DeleteContact_def defs)
  have d2: "DeleteContact Part_000
      (mockLib \<lparr> Status = ''200 OK'', StatusCode = 200, Body = ''{}'', BodyErr = None \<rparr> (None, \<lparr> DeleteContactResponse.Success = True, Message = ''done'' \<rparr>, 2))
      (WithHTTPClient (NewClient ''key'') None) [[(''name'', AnyString ''Ann'')]] (Context 0) ''a@b.com''
     = Returns \<lparr> heap_after = [[(''name'', AnyString ''Ann'')], [(''email'', AnyString ''a@b.com'')]],
         requests = [(DefaultClient,
            \<lparr> Method = ''DELETE'', URL = ''https://app.loops.so/api/v1/contacts/delete'',
              Header = [(''Content-Type'', ''application/json''), (''Authorization'', ''Bearer key'')],
              ReqBody = Some ''email'', Ctx = Context 0 \<rparr>)],
         response = Some \<lparr> DeleteContactResponse.Success = True, Message = ''done'' \<rparr>, err = None \<rparr>"
    by (simp add: DeleteContact_def defs)
  have e1: "SendEvent
      (mockLib \<lparr> Status = ''200 OK'', StatusCode = 200, Body = ''{}'', BodyErr = None \<rparr> (None, \<lparr> SendEventResponse.Success = True \<rparr>, 2))
      (WithHTTPClient (NewClient ''key'') None) [[(''name'', AnyString ''Ann'')]] (Context 0)
      \<lparr> SendEventRequest.Email = ''a@b.com'', EventName = ''signup'' \<rparr>
     = Returns \<lparr> heap_after = [[(''name'', AnyString ''Ann'')]],
         requests = [(DefaultClient,
            \<lparr> Method = ''POST'', URL = ''https://app.loops.so/api/v1/events/send'',
              Header = [(''Content-Type'', ''application/json''), (''Authorization'', ''Bearer key'')],
              ReqBody = Some ''event'', Ctx = Context 0 \<rparr>)],
         response = Some \<lparr> SendEventResponse.Success = True \<rparr>, err = None \<rparr>"
    by (simp add: SendEvent_def defs)
  have t1: "SendTransactional
      (mockLib \<lparr> Status = ''200 OK'', StatusCode = 200, Body = ''{}'', BodyErr = None \<rparr> (None, \<lparr> SendTransactionalResponse.Success = True \<rparr>, 2))
      (WithHTTPClient (NewClient ''key'') None) [[(''name'', AnyString ''Ann'')]] (Context 0)
      \<lparr> SendTransactionalRequest.Email = ''a@b.com'', TransactionalID = ''t1'',
        DataVariables = NilMap \<rparr>
     = Returns \<lparr> heap_after = [[(''name'', AnyString ''Ann'')]],
         requests = [(DefaultClient,
            \<lparr> Method = ''POST'', URL = ''https://app.loops.so/api/v1/transactional'',
              Header = [(''Content-Type'', ''application/json''), (''Authorization'', ''Bearer key'')],
              ReqBody = Some ''transactional'', Ctx = Context 0 \<rparr>)],
         response = Some \<lparr> SendTransactionalResponse.Success = True \<rparr>, err = None \<rparr>"
    by (simp add: SendTransactional_def defs)
  show ?thesis
    using n doRequest_nil_client[OF n, where ?V = Loops_go and ?h = "[[(''name'', AnyString ''Ann'')]]" and ?ctx = "Context 0"
          and ?email = "''a@b.com''" and ?flds = "MapRef 0"
          and ?libC = "mockLib \<lparr> Status = ''200 OK'', StatusCode = 200, Body = ''{}'', BodyErr = None \<rparr> (None, \<lparr> CreateContactResponse.Success = True, ID = ''abc'' \<rparr>, 2)"
          and ?libU = "mockLib \<lparr> Status = ''200 OK'', StatusCode = 200, Body = ''{}'', BodyErr = None \<rparr> (None, \<lparr> UpsertContactResponse.Success = True, ID = ''abc'' \<rparr>, 2)"
          and ?libD = "mockLib \<lparr> Status = ''200 OK'', StatusCode = 200, Body = ''{}'', BodyErr = None \<rparr> (None, \<lparr> DeleteContactResponse.Success = True, Message = ''done'' \<rparr>, 2)"
          and ?libE = "mockLib \<lparr> Status = ''200 OK'', StatusCode = 200, Body = ''{}'', BodyErr = None \<rparr> (None, \<lparr> SendEventResponse.Success = True \<rparr>, 2)"
          and ?ev = "\<lparr> SendEventRequest.Email = ''a@b.com'', EventName = ''signup'' \<rparr>"
          and ?libT = "mockLib \<lparr> Status = ''200 OK'', StatusCode = 200, Body = ''{}'', BodyErr = None \<rparr> (None, \<lparr> SendTransactionalResponse.Success = True \<rparr>, 2)"
          and ?tr = "\<lparr> SendTransactionalRequest.Email = ''a@b.com'', TransactionalID = ''t1'',
        DataVariables = NilMap \<rparr>"]
      c1 u1 d1 d2 e1 t1
    by simp
qed

text \<open>
  Claim C7. Every operation hands to the client one request, with the operation's own
  method and the URL made of the configured endpoint and the operation's own path,
  whatever the configuration and the arguments: \<^verbatim>\<open>CreateContact\<close> POST
  \<^verbatim>\<open>/contacts/create\<close> and \<^verbatim>\<open>UpsertContact\<close> PUT \<^verbatim>\<open>/contacts/update\<close> (once the
  fields are valid; none otherwise), \<^verbatim>\<open>DeleteContact\<close> \<^verbatim>\<open>/contacts/delete\<close> with POST
  in \<^verbatim>\<open>loops.go\<close> and DELETE in the second copy, \<^verbatim>\<open>SendEvent\<close> POST
  \<^verbatim>\<open>/events/send\<close>, \<^verbatim>\<open>SendTransactional\<close> POST \<^verbatim>\<open>/transactional\<close>. The request is
  handed over once the library has marshalled the body and accepted the request, and no
  request otherwise. The body of a \<^verbatim>\<open>DeleteContact\<close> request is the JSON of a new map
  whose one entry is the email.
\<close>

theorem operations_method_path:
  "(case find (offending V) (entries h flds) of
      None \<Rightarrow>
        (\<exists>out. CreateContact V libC c h ctx email flds = Returns out
           \<and> heap_after out
               = mapassign (fst (validateFields V h flds)) (length h) ''email'' (AnyString email)
           \<and> requests out
               = expectedSent libC (pickClient c) c (heap_after out) ctx
                   ''POST'' ''/contacts/create'' (MapBody (MapRef (length h))))
    | Some kv \<Rightarrow>
        (\<exists>out. CreateContact V libC c h ctx email flds = Returns out
           \<and> requests out = [] \<and> response out = None \<and> err out = Some (fieldError kv)))
   \<and> (case find (offending V) (entries h flds) of
      None \<Rightarrow>
        (\<exists>out. UpsertContact V libU c h ctx email flds = Returns out
           \<and> heap_after out
               = mapassign (fst (validateFields V h flds)) (length h) ''email'' (AnyString email)
           \<and> requests out
               = expectedSent libU (pickClient c) c (heap_after out) ctx
                   ''PUT'' ''/contacts/update'' (MapBody (MapRef (length h))))
    | Some kv \<Rightarrow>
        (\<exists>out. UpsertContact V libU c h ctx email flds = Returns out
           \<and> requests out = [] \<and> response out = None \<and> err out = Some (fieldError kv)))
   \<and> (\<exists>out. DeleteContact V libD c h ctx email = Returns out
         \<and> heap_after out = h @ [[(''email'', AnyString email)]]
         \<and> requests out
             = expectedSent libD (pickClient c) c (heap_after out) ctx
                 (deleteMethod V) ''/contacts/delete'' (MapBody (MapRef (length h))))
   \<and> deleteMethod Loops_go = ''POST'' \<and> deleteMethod Part_000 = ''DELETE''
   \<and> (\<exists>out. SendEvent libE c h ctx ev = Returns out
         \<and> heap_after out = h
         \<and> requests out
             = expectedSent libE (pickClient c) c h ctx ''POST'' ''/events/send'' (EventBody ev))
   \<and> (\<exists>out. SendTransactional libT c h ctx tr = Returns out
         \<and> heap_after out = h
         \<and> requests out
             = expectedSent libT (pickClient c) c h ctx ''POST'' ''/transactional''
                 (TransactionalBody tr))
   \<and> expectedSent lib cl c g ctx method path b
       = (case json_Marshal lib g b of
            Inl e \<Rightarrow> []
          | Inr m \<Rightarrow>
              (case http_NewRequestError lib ctx method (endpoint c @ path) of
                 Some e \<Rightarrow> []
               | None \<Rightarrow>
                   [(cl, \<lparr> Method = method, URL = endpoint c @ path,
                          Header = (''Content-Type'', ''application/json'')
                                   # (if apiKey c = [] then []
                                      else [(''Authorization'', ''Bearer '' @ apiKey c)]),
                          ReqBody = Some m, Ctx = ctx \<rparr>)]))"
proof -
  have unfolded: "expectedSent lib cl c g ctx method path b
       = (case json_Marshal lib g b of
            Inl e \<Rightarrow> []
          | Inr m \<Rightarrow>
              (case http_NewRequestError lib ctx method (endpoint c @ path) of
                 Some e \<Rightarrow> []
               | None \<Rightarrow>
                   [(cl, \<lparr> Method = method, URL = endpoint c @ path,
                          Header = (''Content-Type'', ''application/json'')
                                   # (if apiKey c = [] then []
                                      else [(''Authorization'', ''Bearer '' @ apiKey c)]),
                          ReqBody = Some m, Ctx = ctx \<rparr>)]))"
    by (simp add: expectedSent_def requestOf_def split: sum.splits option.splits)
  have del: "deleteMethod Loops_go = ''POST'' \<and> deleteMethod Part_000 = ''DELETE''"
    by simp
  show ?thesis
    using CreateContact_requests[of V libC c h ctx email flds]
      UpsertContact_requests[of V libU c h ctx email flds]
      DeleteContact_requests[of V libD c h ctx email]
      SendEvent_requests[of libE c h ctx ev]
      SendTransactional_requests[of libT c h ctx tr]
      del unfolded
    by (intro conjI) (erule conjunct1 conjunct2 | assumption)+
qed

theorem operations_method_path_witness:
  "CreateContact Loops_go
      (mockLib \<lparr> Status = ''200 OK'', StatusCode = 200, Body = ''{}'', BodyErr = None \<rparr> (None, \<lparr> CreateContactResponse.Success = True, ID = ''abc'' \<rparr>, 2))
      (NewClient ''key'') [[(''name'', AnyString ''Ann'')]] (Context 0) ''a@b.com'' (MapRef 0)
     = Returns \<lparr> heap_after = [[(''name'', AnyString ''Ann'')], [(''name'', AnyString ''Ann''), (''email'', AnyString ''a@b.com'')]],
         requests = [(DefaultClient,
            \<lparr> Method = ''POST'', URL = ''https://app.loops.so/api/v1/contacts/create'',
              Header = [(''Content-Type'', ''application/json''), (''Authorization'', ''Bearer key'')],
              ReqBody = Some ''nameemail'', Ctx = Context 0 \<rparr>)],
         response = Some \<lparr> CreateContactResponse.Success = True, ID = ''abc'' \<rparr>, err = None \<rparr>
   \<and> UpsertContact Loops_go
      (mockLib \<lparr> Status = ''200 OK'', StatusCode = 200, Body = ''{}'', BodyErr = None \<rparr> (None, \<lparr> UpsertContactResponse.Success = True, ID = ''abc'' \<rparr>, 2))
      (NewClient ''key'') [[(''name'', AnyString ''Ann'')]] (Context 0) ''a@b.com'' (MapRef 0)
     = Returns \<lparr> heap_after = [[(''name'', AnyString ''Ann'')], [(''name'', AnyString ''Ann''), (''email'', AnyString ''a@b.com'')]],
         requests = [(DefaultClient,
            \<lparr> Method = ''PUT'', URL = ''https://app.loops.so/api/v1/contacts/update'',
              Header = [(''Content-Type'', ''application/json''), (''Authorization'', ''Bearer key'')],
              ReqBody = Some ''nameemail'', Ctx = Context 0 \<rparr>)],
         response = Some \<lparr> UpsertContactResponse.Success = True, ID = ''abc'' \<rparr>, err = None \<rparr>
   \<and> DeleteContact Loops_go
      (mockLib \<lparr> Status = ''200 OK'', StatusCode = 200, Body = ''{}'', BodyErr = None \<rparr> (None, \<lparr> DeleteContactResponse.Success = True, Message = ''done'' \<rparr>, 2))
      (NewClient ''key'') [[(''name'', AnyString ''Ann'')]] (Context 0) ''a@b.com''
     = Returns \<lparr> heap_after = [[(''name'', AnyString ''Ann'')], [(''email'', AnyString ''a@b.com'')]],
         requests = [(DefaultClient,
            \<lparr> Method = ''POST'', URL = ''https://app.loops.so/api/v1/contacts/delete'',
              Header = [(''Content-Type'', ''application/json''), (''Authorization'', ''Bearer key'')],
              ReqBody = Some ''email'', Ctx = Context 0 \<rparr>)],
         response = Some \<lparr> DeleteContactResponse.Success = True, Message = ''done'' \<rparr>, err = None \<rparr>
   \<and> DeleteContact Part_000
      (mockLib \<lparr> Status = ''200 OK'', StatusCode = 200, Body = ''{}'', BodyErr = None \<rparr> (None, \<lparr> DeleteContactResponse.Success = True, Message = ''done'' \<rparr>, 2))
      (NewClient ''key'') [[(''name'', AnyString ''Ann'')]] (Context 0) ''a@b.com''
     = Returns \<lparr> heap_after = [[(''name'', AnyString ''Ann'')], [(''email'', AnyString ''a@b.com'')]],
         requests = [(DefaultClient,
            \<lparr> Method = ''DELETE'', URL = ''https://app.loops.so/api/v1/contacts/delete'',
              Header = [(''Content-Type'', ''application/json''), (''Authorization'', ''Bearer key'')],
              ReqBody = Some ''email'', Ctx = Context 0 \<rparr>)],
         response = Some \<lparr> DeleteContactResponse.Success = True, Message = ''done'' \<rparr>, err = None \<rparr>
   \<and> SendEvent
      (mockLib \<lparr> Status = ''200 OK'', StatusCode = 200, Body = ''{}'', BodyErr = None \<rparr> (None, \<lparr> SendEventResponse.Success = True \<rparr>, 2))
      (NewClient ''key'') [[(''name'', AnyString ''Ann'')]] (Context 0)
      \<lparr> SendEventRequest.Email = ''a@b.com'', EventName = ''signup'' \<rparr>
     = Returns \<lparr> heap_after = [[(''name'', AnyString ''Ann'')]],
         requests = [(DefaultClient,
            \<lparr> Method = ''POST'', URL = ''https://app.loops.so/api/v1/events/send'',
              Header = [(''Content-Type'', ''application/json''), (''Authorization'', ''Bearer key'')],
              ReqBody = Some ''event'', Ctx = Context 0 \<rparr>)],
         response = Some \<lparr> SendEventResponse.Success = True \<rparr>, err = None \<rparr>
   \<and> SendTransactional
      (mockLib \<lparr> Status = ''200 OK'', StatusCode = 200, Body = ''{}'', BodyErr = None \<rparr> (None, \<lparr> SendTransactionalResponse.Success = True \<rparr>, 2))
      (NewClient ''key'') [[(''name'', AnyString ''Ann'')]] (Context 0)
      \<lparr> SendTransactionalRequest.Email = ''a@b.com'', TransactionalID = ''t1'',
        DataVariables = NilMap \<rparr>
     = Returns \<lparr> heap_after = [[(''name'', AnyString ''Ann'')]],
         requests = [(DefaultClient,
            \<lparr> Method = ''POST'', URL = ''https://app.loops.so/api/v1/transactional'',
              Header = [(''Content-Type'', ''application/json''), (''Authorization'', ''Bearer key'')],
              ReqBody = Some ''transactional'', Ctx = Context 0 \<rparr>)],
         response = Some \<lparr> SendTransactionalResponse.Success = True \<rparr>, err = None \<rparr>"
proof -
  note defs = returnResponse_def doRequest_def buildRequest_def NewRequestWithContext_def
    mockLib_def NewClient_def WithHTTPClient_def DefaultEndpoint_def Header_Set_def pickClient_def
    handleResponse_def makemap_def mapassign_def entries_def validateFields_def
  have c1: "CreateContact Loops_go
      (mockLib \<lparr> Status = ''200 OK'', StatusCode = 200, Body = ''{}'', BodyErr = None \<rparr> (None, \<lparr> CreateContactResponse.Success = True, ID = ''abc'' \<rparr>, 2))
      (NewClient ''key'') [[(''name'', AnyString ''Ann'')]] (Context 0) ''a@b.com'' (MapRef 0)
     = Returns \<lparr> heap_after = [[(''name'', AnyString ''Ann'')], [(''name'', AnyString ''Ann''), (''email'', AnyString ''a@b.com'')]],
         requests = [(DefaultClient,
            \<lparr> Method = ''POST'', URL = ''https://app.loops.so/api/v1/contacts/create'',
              Header = [(''Content-Type'', ''application/json''), (''Authorization'', ''Bearer key'')],
              ReqBody = Some ''nameemail'', Ctx = Context 0 \<rparr>)],
         response = Some \<lparr> CreateContactResponse.Success = True, ID = ''abc'' \<rparr>, err = None \<rparr>"
    by (simp add: CreateContact_def defs)
  have u1: "UpsertContact Loops_go
      (mockLib \<lparr> Status = ''200 OK'', StatusCode = 200, Body = ''{}'', BodyErr = None \<rparr> (None, \<lparr> UpsertContactResponse.Success = True, ID = ''abc'' \<rparr>, 2))
      (NewClient ''key'') [[(''name'', AnyString ''Ann'')]] (Context 0) ''a@b.com'' (MapRef 0)
     = Returns \<lparr> heap_after = [[(''name'', AnyString ''Ann'')], [(''name'', AnyString ''Ann''), (''email'', AnyString ''a@b.com'')]],
         requests = [(DefaultClient,
            \<lparr> Method = ''PUT'', URL = ''https://app.loops.so/api/v1/contacts/update'',
              Header = [(''Content-Type'', ''application/json''), (''Authorization'', ''Bearer key'')],
              ReqBody = Some ''nameemail'', Ctx = Context 0 \<rparr>)],
         response = Some \<lparr> UpsertContactResponse.Success = True, ID = ''abc'' \<rparr>, err = None \<rparr>"
    by (simp add: UpsertContact_def defs)
  have d1: "DeleteContact Loops_go
      (mockLib \<lparr> Status = ''200 OK'', StatusCode = 200, Body = ''{}'', BodyErr = None \<rparr> (None, \<lparr> DeleteContactResponse.Success = True, Message = ''done'' \<rparr>, 2))
      (NewClient ''key'') [[(''name'', AnyString ''Ann'')]] (Context 0) ''a@b.com''
     = Returns \<lparr> heap_after = [[(''name'', AnyString ''Ann'')], [(''email'', AnyString ''a@b.com'')]],
         requests = [(DefaultClient,
            \<lparr> Method = ''POST'', URL = ''https://app.loops.so/api/v1/contacts/delete'',
              Header = [(''Content-Type'', ''application/json''), (''Authorization'', ''Bearer key'')],
              ReqBody = Some ''email'', Ctx = Context 0 \<rparr>)],
         response = Some \<lparr> DeleteContactResponse.Success = True, Message = ''done'' \<rparr>, err = None \<rparr>"
    by (simp add: DeleteContact_def defs)
  have d2: "DeleteContact Part_000
      (mockLib \<lparr> Status = ''200 OK'', StatusCode = 200, Body = ''{}'', BodyErr = None \<rparr> (None, \<lparr> DeleteContactResponse.Success = True, Message = ''done'' \<rparr>, 2))
      (NewClient ''key'') [[(''name'', AnyString ''Ann'')]] (Context 0) ''a@b.com''
     = Returns \<lparr> heap_after = [[(''name'', AnyString ''Ann'')], [(''email'', AnyString ''a@b.com'')]],
         requests = [(DefaultClient,
            \<lparr> Method = ''DELETE'', URL = ''https://app.loops.so/api/v1/contacts/delete'',
              Header = [(''Content-Type'', ''application/json''), (''Authorization'', ''Bearer key'')],
              ReqBody = Some ''email'', Ctx = Context 0 \<rparr>)],
         response = Some \<lparr> DeleteContactResponse.Success = True, Message = ''done'' \<rparr>, err = None \<rparr>"
    by (simp add: DeleteContact_def defs)
  have e1: "SendEvent
      (mockLib \<lparr> Status = ''200 OK'', StatusCode = 200, Body = ''{}'', BodyErr = None \<rparr> (None, \<lparr> SendEventResponse.Success = True \<rparr>, 2))
      (NewClient ''key'') [[(''name'', AnyString ''Ann'')]] (Context 0)
      \<lparr> SendEventRequest.Email = ''a@b.com'', EventName = ''signup'' \<rparr>
     = Returns \<lparr> heap_after = [[(''name'', AnyString ''Ann'')]],
         requests = [(DefaultClient,
            \<lparr> Method = ''POST'', URL = ''https://app.loops.so/api/v1/events/send'',
              Header = [(''Content-Type'', ''application/json''), (''Authorization'', ''Bearer key'')],
              ReqBody = Some ''event'', Ctx = Context 0 \<rparr>)],
         response = Some \<lparr> SendEventResponse.Success = True \<rparr>, err = None \<rparr>"
    by (simp add: SendEvent_def defs)
  have t1: "SendTransactional
      (mockLib \<lparr> Status = ''200 OK'', StatusCode = 200, Body = ''{}'', BodyErr = None \<rparr> (None, \<lparr> SendTransactionalResponse.Success = True \<rparr>, 2))
      (NewClient ''key'') [[(''name'', AnyString ''Ann'')]] (Context 0)
      \<lparr> SendTransactionalRequest.Email = ''a@b.com'', TransactionalID = ''t1'',
        DataVariables = NilMap \<rparr>
     = Returns \<lparr> heap_after = [[(''name'', AnyString ''Ann'')]],
         requests = [(DefaultClient,
            \<lparr> Method = ''POST'', URL = ''https://app.loops.so/api/v1/transactional'',
              Header = [(''Content-Type'', ''application/json''), (''Authorization'', ''Bearer key'')],
              ReqBody = Some ''transactional'', Ctx = Context 0 \<rparr>)],
         response = Some \<lparr> SendTransactionalResponse.Success = True \<rparr>, err = None \<rparr>"
    by (simp add: SendTransactional_def defs)
  show ?thesis
    using  operations_method_path[where ?V = Loops_go and ?c = "(NewClient ''key'')" and ?h = "[[(''name'', AnyString ''Ann'')]]" and ?ctx = "Context 0"
          and ?email = "''a@b.com''" and ?flds = "MapRef 0"
          and ?libC = "mockLib \<lparr> Status = ''200 OK'', StatusCode = 200, Body = ''{}'', BodyErr = None \<rparr> (None, \<lparr> CreateContactResponse.Success = True, ID = ''abc'' \<rparr>, 2)"
          and ?libU = "mockLib \<lparr> Status = ''200 OK'', StatusCode = 200, Body = ''{}'', BodyErr = None \<rparr> (None, \<lparr> UpsertContactResponse.Success = True, ID = ''abc'' \<rparr>, 2)"
          and ?libD = "mockLib \<lparr> Status = ''200 OK'', StatusCode = 200, Body = ''{}'', BodyErr = None \<rparr> (None, \<lparr> DeleteContactResponse.Success = True, Message = ''done'' \<rparr>, 2)"
          and ?libE = "mockLib \<lparr> Status = ''200 OK'', StatusCode = 200, Body = ''{}'', BodyErr = None \<rparr> (None, \<lparr> SendEventResponse.Success = True \<rparr>, 2)"
          and ?ev = "\<lparr> SendEventRequest.Email = ''a@b.com'', EventName = ''signup'' \<rparr>"
          and ?libT = "mockLib \<lparr> Status = ''200 OK'', StatusCode = 200, Body = ''{}'', BodyErr = None \<rparr> (None, \<lparr> SendTransactionalResponse.Success = True \<rparr>, 2)"
          and ?tr = "\<lparr> SendTransactionalRequest.Email = ''a@b.com'', TransactionalID = ''t1'',
        DataVariables = NilMap \<rparr>"]
      c1 u1 d1 d2 e1 t1
    by simp
qed

end
